theory Spec2Isabelle
  imports Complex_Main "HOL-Library.Sublist"
begin

section \<open>Spreadsheet cells and the JavaScript primitives the import relies on\<close>

text \<open>
  The workbook is read with \<^verbatim>\<open>xlsx.utils.sheet_to_json(sheet, { header: 1, defval: '' })\<close>:
  a grid, that is an array of rows, each an array of untyped cells. A cell is a string, a
  number or a boolean; \<open>CUndef\<close> is what JavaScript yields for an index outside the row
  (and for a hole of a sparse row), \<open>CNull\<close> is \<^verbatim>\<open>null\<close>.

  Conventions of the embedding:
  \<^item> a \<open>char\<close> is one code unit in the Latin-1 range, so \<open>length\<close> is the string's
    \<^verbatim>\<open>.length\<close> for such text;
  \<^item> a numeric cell holds an integer (an identifier, a serial day count, a whole amount),
    of a size below \<open>2^53\<close>, where a double is exact and \<^verbatim>\<open>String\<close> prints all digits;
    cells with a fractional number are outside the embedding;
  \<^item> a number computed from text (\<^verbatim>\<open>parseFloat\<close>) is a rational, \<open>NaN\<close> or an infinity:
    the exact value of the decimal literal, without the rounding to a double.
\<close>

datatype cell = CStr string | CNum int | CBool bool | CNull | CUndef

type_synonym row = "cell list"
type_synonym grid = "row list"

datatype jsnum = Num rat | NaN | PosInf | NegInf

text \<open>A date object: its time value in milliseconds since the epoch, or an Invalid Date.\<close>

datatype jsdate = DateMs int | InvalidDate

text \<open>Truthiness (\<^verbatim>\<open>!c\<close>, \<^verbatim>\<open>c && ...\<close>) of a cell.\<close>

fun truthy :: "cell \<Rightarrow> bool" where
  "truthy (CStr s) = (s \<noteq> [])"
| "truthy (CNum n) = (n \<noteq> 0)"
| "truthy (CBool b) = b"
| "truthy CNull = False"
| "truthy CUndef = False"

text \<open>\<^verbatim>\<open>row[idx]\<close>: \<^verbatim>\<open>undefined\<close> outside the row, also at the sentinel index \<open>-1\<close>.\<close>

definition cell_at :: "row \<Rightarrow> int \<Rightarrow> cell" where
  "cell_at r idx = (if 0 \<le> idx \<and> nat idx < length r then r ! nat idx else CUndef)"

subsection \<open>Numbers to text\<close>

definition digit_char :: "nat \<Rightarrow> char" where
  "digit_char d = (if d < 10 then ''0123456789'' ! d else CHR ''?'')"

fun nat_to_string :: "nat \<Rightarrow> string" where
  "nat_to_string n =
     (if n < 10 then [digit_char n] else nat_to_string (n div 10) @ [digit_char (n mod 10)])"

declare nat_to_string.simps [simp del]

definition int_to_string :: "int \<Rightarrow> string" where
  "int_to_string n = (if n < 0 then CHR ''-'' # nat_to_string (nat (- n)) else nat_to_string (nat n))"

text \<open>\<^verbatim>\<open>String(c)\<close> and the \<^verbatim>\<open>${c}\<close> of a template literal.\<close>

fun js_String :: "cell \<Rightarrow> string" where
  "js_String (CStr s) = s"
| "js_String (CNum n) = int_to_string n"
| "js_String (CBool b) = (if b then ''true'' else ''false'')"
| "js_String CNull = ''null''"
| "js_String CUndef = ''undefined''"

subsection \<open>Text\<close>

text \<open>White space as \<^verbatim>\<open>trim\<close> and the regular expression \<^verbatim>\<open>\s\<close> see it (Latin-1 part).\<close>

definition is_ws :: "char \<Rightarrow> bool" where
  "is_ws c = (let n = (of_char c :: nat) in (9 \<le> n \<and> n \<le> 13) \<or> n = 32 \<or> n = 160)"

definition trim :: "string \<Rightarrow> string" where
  "trim s = rev (dropWhile is_ws (rev (dropWhile is_ws s)))"

text \<open>\<^verbatim>\<open>s.replace(/\s/g, '')\<close>\<close>

definition strip_ws :: "string \<Rightarrow> string" where
  "strip_ws s = filter (\<lambda>c. \<not> is_ws c) s"

text \<open>\<^verbatim>\<open>s.replace(',', '.')\<close>: a string pattern replaces the first occurrence only.\<close>

fun replace_comma :: "string \<Rightarrow> string" where
  "replace_comma [] = []"
| "replace_comma (c # cs) = (if c = CHR '','' then CHR ''.'' # cs else c # replace_comma cs)"

text \<open>
  \<^verbatim>\<open>toUpperCase\<close> on Latin-1 text: the letters a-z and the accented letters move down by 32,
  the sharp s becomes SS, everything else is kept (also the micro sign and the y with
  diaeresis, whose capitals lie outside Latin-1).
\<close>

definition toUpper1 :: "char \<Rightarrow> string" where
  "toUpper1 c = (let n = (of_char c :: nat) in
     if (97 \<le> n \<and> n \<le> 122) \<or> (224 \<le> n \<and> n \<le> 254 \<and> n \<noteq> 247) then [char_of (n - 32)]
     else if n = 223 then ''SS'' else [c])"

definition toUpperCase :: "string \<Rightarrow> string" where
  "toUpperCase s = concat (map toUpper1 s)"

text \<open>\<^verbatim>\<open>s.includes(pat)\<close> on strings: \<open>pat\<close> occurs in \<open>s\<close> as a contiguous block.\<close>

fun str_includes :: "string \<Rightarrow> string \<Rightarrow> bool" where
  "str_includes [] pat = (pat = [])"
| "str_includes (c # cs) pat = (prefix pat (c # cs) \<or> str_includes cs pat)"

text \<open>\<^verbatim>\<open>arr.includes(x)\<close> on an array of strings.\<close>

definition arr_includes :: "string list \<Rightarrow> string \<Rightarrow> bool" where
  "arr_includes xs x = List.member xs x"

text \<open>\<^verbatim>\<open>s.split(sep)\<close> for a one-character separator.\<close>

fun split_on :: "char \<Rightarrow> string \<Rightarrow> string list" where
  "split_on d [] = [[]]"
| "split_on d (c # cs) =
     (if c = d then [] # split_on d cs
      else (case split_on d cs of [] \<Rightarrow> [[c]] | p # ps \<Rightarrow> (c # p) # ps))"

subsection \<open>Text to numbers\<close>

definition is_digit :: "char \<Rightarrow> bool" where
  "is_digit c = (let n = (of_char c :: nat) in 48 \<le> n \<and> n \<le> 57)"

definition digits_val :: "string \<Rightarrow> nat" where
  "digits_val ds = foldl (\<lambda>a c. 10 * a + (of_char c - 48)) 0 ds"

text \<open>An optional sign in front of a numeral: the sign and the rest of the text.\<close>

fun take_sign :: "string \<Rightarrow> int \<times> string" where
  "take_sign [] = (1, [])"
| "take_sign (c # cs) =
     (if c = CHR ''-'' then (- 1, cs) else if c = CHR ''+'' then (1, cs) else (1, c # cs))"

text \<open>The exponent part of a decimal literal (\<open>0\<close> when there is none, or no digit follows).\<close>

fun exponent_part :: "string \<Rightarrow> int" where
  "exponent_part [] = 0"
| "exponent_part (c # cs) =
     (if c = CHR ''e'' \<or> c = CHR ''E'' then
        (let (sg, r) = take_sign cs; ds = takeWhile is_digit r
         in if ds = [] then 0 else sg * int (digits_val ds))
      else 0)"

definition pow10 :: "int \<Rightarrow> rat" where
  "pow10 e = (if 0 \<le> e then 10 ^ nat e else 1 / 10 ^ nat (- e))"

text \<open>
  \<^verbatim>\<open>parseFloat(s)\<close>: leading white space is skipped, then the longest prefix that is a
  decimal literal is read; \<open>NaN\<close> when there is none.
\<close>

definition parseFloat :: "string \<Rightarrow> jsnum" where
  "parseFloat s =
     (let (sg, u) = take_sign (dropWhile is_ws s) in
      if prefix ''Infinity'' u then (if sg < 0 then NegInf else PosInf)
      else
        let ip = takeWhile is_digit u;
            r1 = dropWhile is_digit u;
            (fp, r2) = (case r1 of
                          [] \<Rightarrow> ([], r1)
                        | c # r \<Rightarrow> if c = CHR ''.'' then (takeWhile is_digit r, dropWhile is_digit r)
                                   else ([], r1))
        in if ip = [] \<and> fp = [] then NaN
           else Num (of_int sg
                     * (of_nat (digits_val ip) + of_nat (digits_val fp) / 10 ^ length fp)
                     * pow10 (exponent_part r2)))"

definition is_hex_digit :: "char \<Rightarrow> bool" where
  "is_hex_digit c = (let n = (of_char c :: nat) in
     (48 \<le> n \<and> n \<le> 57) \<or> (65 \<le> n \<and> n \<le> 70) \<or> (97 \<le> n \<and> n \<le> 102))"

definition hex_val :: "char \<Rightarrow> nat" where
  "hex_val c = (let n = (of_char c :: nat) in
     if n \<le> 57 then n - 48 else if n \<le> 70 then n - 55 else n - 87)"

text \<open>
  \<^verbatim>\<open>parseInt(s)\<close> without a radix: white space, a sign, then hexadecimal digits after
  \<^verbatim>\<open>0x\<close> or decimal digits; \<open>None\<close> is \<open>NaN\<close>.
\<close>

definition parseInt :: "string \<Rightarrow> int option" where
  "parseInt s =
     (let (sg, u) = take_sign (dropWhile is_ws s) in
      if prefix ''0x'' u \<or> prefix ''0X'' u then
        (let ds = takeWhile is_hex_digit (drop 2 u)
         in if ds = [] then None else Some (sg * int (foldl (\<lambda>a c. 16 * a + hex_val c) 0 ds)))
      else
        (let ds = takeWhile is_digit u
         in if ds = [] then None else Some (sg * int (digits_val ds))))"

subsection \<open>Dates\<close>

text \<open>
  \<^verbatim>\<open>new Date(v)\<close> for a number: the time value is clipped, beyond 100,000,000 days from
  the epoch the date is an Invalid Date.
\<close>

definition new_Date_ms :: "int \<Rightarrow> jsdate" where
  "new_Date_ms v = (if \<bar>v\<bar> \<le> 8640000000000000 then DateMs v else InvalidDate)"

text \<open>\<^verbatim>\<open>isNaN(d.getTime())\<close>\<close>

fun isNaN_getTime :: "jsdate \<Rightarrow> bool" where
  "isNaN_getTime (DateMs v) = False"
| "isNaN_getTime InvalidDate = True"

text \<open>
  Reading a calendar day as a time value (\<^verbatim>\<open>Date.UTC(y, m - 1, d)\<close>), with the day
  number of a year as ECMAScript defines it.
\<close>

definition DayFromYear :: "int \<Rightarrow> int" where
  "DayFromYear y = 365 * (y - 1970) + (y - 1969) div 4 - (y - 1901) div 100 + (y - 1601) div 400"

definition leap_year :: "int \<Rightarrow> bool" where
  "leap_year y = (y mod 4 = 0 \<and> (y mod 100 \<noteq> 0 \<or> y mod 400 = 0))"

definition days_in_month :: "int \<Rightarrow> nat \<Rightarrow> int" where
  "days_in_month y m =
     (if m = 2 then (if leap_year y then 29 else 28)
      else if m = 4 \<or> m = 6 \<or> m = 9 \<or> m = 11 then 30 else 31)"

definition utc_ms :: "int \<Rightarrow> nat \<Rightarrow> int \<Rightarrow> int" where
  "utc_ms y m d =
     (DayFromYear y + sum_list (map (days_in_month y) [1..<m]) + (d - 1)) * 86400000"

text \<open>
  \<^verbatim>\<open>new Date(text)\<close> is left to the engine for every text outside ECMAScript's date-time
  format, so the functions below take the parser as a parameter. \<open>date_only_parse\<close> is
  the format every engine shares, \<^verbatim>\<open>YYYY-MM-DD\<close>, read as midnight UTC; any other text is
  not recognised by it.
\<close>

definition date_only_parse :: "string \<Rightarrow> jsdate" where
  "date_only_parse s =
     (if length s = 10 \<and> s ! 4 = CHR ''-'' \<and> s ! 7 = CHR ''-''
         \<and> list_all is_digit (take 4 s) \<and> list_all is_digit (take 2 (drop 5 s))
         \<and> list_all is_digit (drop 8 s)
      then
        (let y = int (digits_val (take 4 s));
             m = digits_val (take 2 (drop 5 s));
             d = int (digits_val (drop 8 s))
         in if 1 \<le> m \<and> m \<le> 12 \<and> 1 \<le> d \<and> d \<le> days_in_month y m
            then DateMs (utc_ms y m d) else InvalidDate)
      else InvalidDate)"

section \<open>parseExcelDate\<close>

text \<open>
  \<^verbatim>\<open>
  parseExcelDate(excelDate) {
      if (!excelDate) return null;
      if (typeof excelDate === 'number') {
          return new Date(Math.round((excelDate - 25569) * 86400 * 1000));
      }
      if (typeof excelDate === 'string') {
          const parts = excelDate.split('/');
          if (parts.length === 3) return new Date(`${parts[2]}-${parts[1]}-${parts[0]}`);
      }
      const d = new Date(excelDate);
      return isNaN(d.getTime()) ? null : d;
  }
  \<close>
  \<open>None\<close> is \<^verbatim>\<open>null\<close>. On an integer \<^verbatim>\<open>Math.round\<close> is the identity. The last two lines
  are reached by a string without three parts and by the boolean \<^verbatim>\<open>true\<close>, which
  \<^verbatim>\<open>new Date\<close> converts to the number 1.
\<close>

definition parseExcelDate :: "(string \<Rightarrow> jsdate) \<Rightarrow> cell \<Rightarrow> jsdate option" where
  "parseExcelDate parse excelDate =
     (if \<not> truthy excelDate then None
      else case excelDate of
        CNum n \<Rightarrow> Some (new_Date_ms ((n - 25569) * 86400 * 1000))
      | CStr s \<Rightarrow>
          (let parts = split_on CHR ''/'' s in
           if length parts = 3 then Some (parse (parts ! 2 @ ''-'' @ parts ! 1 @ ''-'' @ parts ! 0))
           else (let d = parse s in if isNaN_getTime d then None else Some d))
      | CBool b \<Rightarrow> (let d = new_Date_ms 1 in if isNaN_getTime d then None else Some d)
      | _ \<Rightarrow> None)"

section \<open>Records of the store and the store's interface\<close>

text \<open>
  The fields of the three entities as the import writes them. A field the import may leave
  out or set to \<^verbatim>\<open>null\<close> is an option.
\<close>

record worker =
  w_prenom :: string
  w_nom :: string
  w_poste :: string
  w_site_affectation :: string
  w_statut :: string
  w_date_embauche :: "jsdate option"
  w_date_naissance :: "jsdate option"
  w_email :: "string option"
  w_cin :: "string option"
  w_contact :: "string option"
  w_adresse :: "string option"
  w_salaire_base :: jsnum
  w_created_by :: "nat option"

record product =
  p_nom :: string
  p_description :: "string option"
  p_unite :: string
  p_seuil_alerte :: int
  p_statut :: string
  p_quantite_actuelle :: int
  p_code_produit :: "string option"
  p_category_id :: "nat option"

record category =
  c_nom :: string
  c_description :: string

text \<open>
  An awaited call either returns or throws, and may change the store: a function from the
  store's state to a result (\<open>Inl\<close> the message of the error thrown) and the new state.
\<close>

type_synonym ('a, 's) call = "'s \<Rightarrow> (string + 'a) \<times> 's"

definition bind_call :: "('a, 's) call \<Rightarrow> ('a \<Rightarrow> ('b, 's) call) \<Rightarrow> ('b, 's) call" where
  "bind_call m f = (\<lambda>s. case m s of (Inl e, s') \<Rightarrow> (Inl e, s') | (Inr a, s') \<Rightarrow> f a s')"

definition return_call :: "'a \<Rightarrow> ('a, 's) call" where
  "return_call a = (\<lambda>s. (Inr a, s))"

text \<open>
  Everything the import functions take from outside: the engine's \<^verbatim>\<open>new Date(text)\<close>, the
  clock read by \<^verbatim>\<open>new Date()\<close> while row \<open>i\<close> is processed, and the models \<^verbatim>\<open>Worker\<close>,
  \<^verbatim>\<open>Product\<close>, \<^verbatim>\<open>Category\<close> of \<^verbatim>\<open>../models\<close>. A \<^verbatim>\<open>where\<close> clause is a predicate on the
  record, an instance is the record found together with its primary key, the object given
  to \<^verbatim>\<open>update\<close> is the assignment it makes.
\<close>

record 's env =
  date_parse :: "string \<Rightarrow> jsdate"
  clock :: "nat \<Rightarrow> jsdate"
  Worker_findOne :: "(worker \<Rightarrow> bool) \<Rightarrow> ((nat \<times> worker) option, 's) call"
  Worker_create :: "worker \<Rightarrow> (unit, 's) call"
  Worker_update :: "nat \<Rightarrow> (worker \<Rightarrow> worker) \<Rightarrow> (unit, 's) call"
  Product_findOne :: "(product \<Rightarrow> bool) \<Rightarrow> ((nat \<times> product) option, 's) call"
  Product_create :: "product \<Rightarrow> (unit, 's) call"
  Product_update :: "nat \<Rightarrow> (product \<Rightarrow> product) \<Rightarrow> (unit, 's) call"
  Category_findOne :: "(category \<Rightarrow> bool) \<Rightarrow> ((nat \<times> category) option, 's) call"
  Category_create :: "category \<Rightarrow> (nat, 's) call"

subsection \<open>Statistics and loop state\<close>

record stats =
  total :: nat
  created :: nat
  updated :: nat
  errors :: "string list"

definition stats0 :: stats where
  "stats0 = \<lparr>total = 0, created = 0, updated = 0, errors = []\<rparr>"

text \<open>
  The variables a loop iteration reads and writes: \<^verbatim>\<open>stats\<close>, \<^verbatim>\<open>headerRowIndex\<close>,
  \<^verbatim>\<open>colMap\<close>, and the store behind the models; the worker import has \<^verbatim>\<open>currentSite\<close> too.
\<close>

record ('c, 's) istate =
  stats :: stats
  headerRowIndex :: int
  colMap :: 'c
  db :: 's

record ('c, 's) wstate = "('c, 's) istate" +
  currentSite :: string

datatype upsert = Created | Updated

text \<open>The three ways a counted row ends: \<^verbatim>\<open>stats.updated++\<close>, \<^verbatim>\<open>stats.created++\<close>, or the
  \<^verbatim>\<open>catch\<close> block pushing the message built from the row.\<close>

definition count_outcome :: "string \<Rightarrow> string + upsert \<Rightarrow> stats \<Rightarrow> stats" where
  "count_outcome line r st =
     (case r of
        Inr Updated \<Rightarrow> st\<lparr>updated := updated st + 1\<rparr>
      | Inr Created \<Rightarrow> st\<lparr>created := created st + 1\<rparr>
      | Inl msg \<Rightarrow> st\<lparr>errors := errors st @ [line @ msg]\<rparr>)"

text \<open>Truthiness of an optional string field and of a number; \<^verbatim>\<open>x > 0\<close>.\<close>

fun str_truthy :: "string option \<Rightarrow> bool" where
  "str_truthy None = False"
| "str_truthy (Some s) = (s \<noteq> [])"

fun num_truthy :: "jsnum \<Rightarrow> bool" where
  "num_truthy (Num r) = (r \<noteq> 0)"
| "num_truthy NaN = False"
| "num_truthy PosInf = True"
| "num_truthy NegInf = True"

fun num_positive :: "jsnum \<Rightarrow> bool" where
  "num_positive (Num r) = (0 < r)"
| "num_positive NaN = False"
| "num_positive PosInf = True"
| "num_positive NegInf = False"

text \<open>\<^verbatim>\<open>row.map(c => String(c).trim().toUpperCase())\<close>\<close>

definition rowStr_of :: "row \<Rightarrow> string list" where
  "rowStr_of r = map (\<lambda>c. toUpperCase (trim (js_String c))) r"

section \<open>importWorkersFromExcel (import service)\<close>

record wcolmap =
  cm_prenom :: int
  cm_nom :: int
  cm_cin :: int
  cm_telephone :: int
  cm_adresse :: int
  cm_salaire :: int
  cm_date_naissance :: int

definition wcolmap0 :: wcolmap where
  "wcolmap0 = \<lparr>cm_prenom = - 1, cm_nom = - 1, cm_cin = - 1, cm_telephone = - 1,
               cm_adresse = - 1, cm_salaire = - 1, cm_date_naissance = - 1\<rparr>"

text \<open>\<^verbatim>\<open>row.filter(c => c && String(c).trim() !== '')\<close>\<close>

definition nonEmptyCells :: "row \<Rightarrow> row" where
  "nonEmptyCells r = filter (\<lambda>c. truthy c \<and> trim (js_String c) \<noteq> []) r"

text \<open>\<^verbatim>\<open>String(nonEmptyCells[0]).trim()\<close>; the source reads it only when there is exactly
  one such cell.\<close>

definition potentialSite :: "row \<Rightarrow> string" where
  "potentialSite r = (case nonEmptyCells r of [] \<Rightarrow> trim (js_String CUndef) | c # _ \<Rightarrow> trim (js_String c))"

text \<open>
  The body of \<^verbatim>\<open>rowStr.forEach((colName, idx) => ...)\<close> in the header branch: the first
  keyword that matches decides which column index is overwritten.
\<close>

definition map_worker_col :: "nat \<times> string \<Rightarrow> wcolmap \<Rightarrow> wcolmap" where
  "map_worker_col = (\<lambda>(idx, colName) cm.
     if str_includes colName ''PRENOM'' then cm\<lparr>cm_prenom := int idx\<rparr>
     else if colName = ''NOMS'' then cm\<lparr>cm_nom := int idx\<rparr>
     else if str_includes colName ''N.I'' \<or> str_includes colName ''CIN'' then cm\<lparr>cm_cin := int idx\<rparr>
     else if str_includes colName ''TELEPHONE'' then cm\<lparr>cm_telephone := int idx\<rparr>
     else if str_includes colName ''ADRESSE'' then cm\<lparr>cm_adresse := int idx\<rparr>
     else if str_includes colName ''SALAIRE'' then cm\<lparr>cm_salaire := int idx\<rparr>
     else if str_includes colName ''NAISSANCE'' then cm\<lparr>cm_date_naissance := int idx\<rparr>
     else cm)"

definition map_worker_columns :: "string list \<Rightarrow> wcolmap \<Rightarrow> wcolmap" where
  "map_worker_columns rowStr cm = fold map_worker_col (enumerate 0 rowStr) cm"

text \<open>The salary cell: \<^verbatim>\<open>parseFloat(String(c).replace(/\s/g, '').replace(',', '.')) || 0\<close>\<close>

definition salary_of_cell :: "cell \<Rightarrow> jsnum" where
  "salary_of_cell c =
     (let salaryStr = replace_comma (strip_ws (js_String c)); v = parseFloat salaryStr
      in if num_truthy v then v else Num 0)"

text \<open>The object \<^verbatim>\<open>workerData\<close> as it stands when the lookup starts (source lines 117-137).\<close>

definition build_workerData ::
  "(string \<Rightarrow> jsdate) \<Rightarrow> jsdate \<Rightarrow> wcolmap \<Rightarrow> string \<Rightarrow> row \<Rightarrow> cell \<Rightarrow> cell \<Rightarrow> worker" where
  "build_workerData parse today cm site r prenom nom =
     \<lparr>w_prenom = trim (js_String prenom),
      w_nom = trim (js_String nom),
      w_poste = ''Technicien de surface'',
      w_site_affectation = site,
      w_statut = ''ACTIF'',
      w_date_embauche = Some today,
      w_date_naissance =
        (if cm_date_naissance cm \<noteq> - 1 then parseExcelDate parse (cell_at r (cm_date_naissance cm))
         else None),
      w_email = None,
      w_cin =
        (if cm_cin cm \<noteq> - 1 \<and> truthy (cell_at r (cm_cin cm))
         then Some (trim (js_String (cell_at r (cm_cin cm)))) else None),
      w_contact =
        (if cm_telephone cm \<noteq> - 1 \<and> truthy (cell_at r (cm_telephone cm))
         then Some (trim (strip_ws (js_String (cell_at r (cm_telephone cm))))) else None),
      w_adresse =
        (if cm_adresse cm \<noteq> - 1 \<and> truthy (cell_at r (cm_adresse cm))
         then Some (trim (js_String (cell_at r (cm_adresse cm)))) else None),
      w_salaire_base =
        (if cm_salaire cm \<noteq> - 1 \<and> truthy (cell_at r (cm_salaire cm))
         then salary_of_cell (cell_at r (cm_salaire cm)) else Num 0),
      w_created_by = None\<rparr>"

text \<open>The object given to \<^verbatim>\<open>existingWorker.update\<close> (source lines 153-159).\<close>

definition worker_update_fields :: "worker \<Rightarrow> worker \<Rightarrow> worker \<Rightarrow> worker" where
  "worker_update_fields workerData existingWorker w =
     w\<lparr>w_site_affectation := w_site_affectation workerData,
       w_salaire_base := (if num_positive (w_salaire_base workerData)
                          then w_salaire_base workerData else w_salaire_base existingWorker),
       w_adresse := (if str_truthy (w_adresse workerData)
                     then w_adresse workerData else w_adresse existingWorker),
       w_contact := (if str_truthy (w_contact workerData)
                     then w_contact workerData else w_contact existingWorker),
       w_date_naissance := (case w_date_naissance workerData of
                              Some d \<Rightarrow> Some d | None \<Rightarrow> w_date_naissance existingWorker)\<rparr>"

text \<open>The lookup and the write of the \<^verbatim>\<open>try\<close> block (source lines 139-164).\<close>

definition upsert_worker :: "'s env \<Rightarrow> worker \<Rightarrow> (upsert, 's) call" where
  "upsert_worker env workerData =
     bind_call
       (if str_truthy (w_cin workerData)
        then Worker_findOne env (\<lambda>w. w_cin w = w_cin workerData)
        else return_call None)
       (\<lambda>byCin.
     bind_call
       (if byCin = None \<and> \<not> str_truthy (w_cin workerData) \<and> str_truthy (w_contact workerData)
        then Worker_findOne env (\<lambda>w. w_prenom w = w_prenom workerData
                                       \<and> w_nom w = w_nom workerData
                                       \<and> w_contact w = w_contact workerData)
        else return_call byCin)
       (\<lambda>existingWorker.
     case existingWorker of
       Some (key, found) \<Rightarrow>
         bind_call (Worker_update env key (worker_update_fields workerData found))
           (\<lambda>_. return_call Updated)
     | None \<Rightarrow>
         bind_call (Worker_create env workerData) (\<lambda>_. return_call Created)))"

text \<open>The prefix of the message pushed by the \<^verbatim>\<open>catch\<close> block:
  \<^verbatim>\<open>`Ligne ${i + 1} (${prenom} ${nom}): `\<close>\<close>

definition worker_error_line :: "nat \<Rightarrow> cell \<Rightarrow> cell \<Rightarrow> string" where
  "worker_error_line i prenom nom =
     ''Ligne '' @ nat_to_string (i + 1) @ '' ('' @ js_String prenom @ '' '' @ js_String nom @ ''): ''"

text \<open>The site detection heuristic at the head of the loop body (source lines 66-77).\<close>

definition is_site_banner :: "row \<Rightarrow> bool" where
  "is_site_banner r =
     (length (nonEmptyCells r) = 1 \<and> length (potentialSite r) > 3
      \<and> \<not> arr_includes (rowStr_of r) ''PRENOMS''
      \<and> \<not> str_includes (potentialSite r) ''TECHNICIENS DE SURFACE'')"

text \<open>The header test of the worker import (source line 80).\<close>

definition is_worker_header :: "string list \<Rightarrow> bool" where
  "is_worker_header rowStr = (arr_includes rowStr ''PRENOMS'' \<and> arr_includes rowStr ''NOMS'')"

text \<open>One iteration of the loop over \<^verbatim>\<open>data\<close>, at index \<open>i\<close> (source lines 62-170).\<close>

definition worker_iter ::
  "'s env \<Rightarrow> nat \<Rightarrow> row \<Rightarrow> (wcolmap, 's) wstate \<Rightarrow> (wcolmap, 's) wstate" where
  "worker_iter env i r st =
     (let rowStr = rowStr_of r in
      if is_site_banner r
      then st\<lparr>currentSite := potentialSite r\<rparr>
      else if is_worker_header rowStr
      then st\<lparr>headerRowIndex := int i, colMap := map_worker_columns rowStr (colMap st)\<rparr>
      else if headerRowIndex st \<noteq> - 1 \<and> int i > headerRowIndex st then
        (if cm_prenom (colMap st) = - 1 \<or> cm_nom (colMap st) = - 1 then st
         else
           let prenom = cell_at r (cm_prenom (colMap st));
               nom = cell_at r (cm_nom (colMap st))
           in if \<not> truthy prenom \<or> \<not> truthy nom then st
              else if length (nonEmptyCells r) = 1 \<and> length (potentialSite r) > 3
              then st\<lparr>currentSite := potentialSite r\<rparr>
              else
                let workerData = build_workerData (date_parse env) (clock env i) (colMap st)
                                   (currentSite st) r prenom nom;
                    (res, s') = upsert_worker env workerData (db st)
                in st\<lparr>stats := count_outcome (worker_error_line i prenom nom) res
                                  ((stats st)\<lparr>total := total (stats st) + 1\<rparr>),
                      db := s'\<rparr>)
      else st)"

fun worker_loop ::
  "'s env \<Rightarrow> nat \<Rightarrow> grid \<Rightarrow> (wcolmap, 's) wstate \<Rightarrow> (wcolmap, 's) wstate" where
  "worker_loop env i [] st = st"
| "worker_loop env i (r # rs) st = worker_loop env (i + 1) rs (worker_iter env i r st)"

definition worker_init :: "'s \<Rightarrow> (wcolmap, 's) wstate" where
  "worker_init s = \<lparr>stats = stats0, headerRowIndex = - 1, colMap = wcolmap0, db = s,
                    currentSite = ''SIEGE''\<rparr>"

text \<open>
  The function itself, from the grid \<^verbatim>\<open>data\<close> read out of the workbook: the statistics it
  returns and the store it leaves.
\<close>

definition importWorkersFromExcel :: "'s env \<Rightarrow> grid \<Rightarrow> 's \<Rightarrow> stats \<times> 's" where
  "importWorkersFromExcel env data s =
     (let st = worker_loop env 0 data (worker_init s) in (stats st, db st))"

section \<open>importProductsFromExcel (import service)\<close>

record pcolmap =
  pc_code :: int
  pc_nom :: int
  pc_categorie :: int
  pc_unite :: int
  pc_seuil :: int
  pc_description :: int

definition pcolmap0 :: pcolmap where
  "pcolmap0 = \<lparr>pc_code = - 1, pc_nom = - 1, pc_categorie = - 1, pc_unite = - 1,
               pc_seuil = - 1, pc_description = - 1\<rparr>"

definition map_product_col :: "nat \<times> string \<Rightarrow> pcolmap \<Rightarrow> pcolmap" where
  "map_product_col = (\<lambda>(idx, colName) cm.
     if str_includes colName ''CODE'' then cm\<lparr>pc_code := int idx\<rparr>
     else if str_includes colName ''NOM'' then cm\<lparr>pc_nom := int idx\<rparr>
     else if str_includes colName ''CAT'' then cm\<lparr>pc_categorie := int idx\<rparr>
     else if str_includes colName ''UNIT'' then cm\<lparr>pc_unite := int idx\<rparr>
     else if str_includes colName ''SEUIL'' then cm\<lparr>pc_seuil := int idx\<rparr>
     else if str_includes colName ''DESC'' then cm\<lparr>pc_description := int idx\<rparr>
     else cm)"

definition map_product_columns :: "string list \<Rightarrow> pcolmap \<Rightarrow> pcolmap" where
  "map_product_columns rowStr cm = fold map_product_col (enumerate 0 rowStr) cm"

text \<open>The header test of the product import (source line 213).\<close>

definition is_product_header :: "string list \<Rightarrow> bool" where
  "is_product_header rowStr =
     (arr_includes rowStr ''NOM DU PRODUIT''
      \<or> (arr_includes rowStr ''CODE'' \<and> list_ex (\<lambda>c. str_includes c ''CAT'') rowStr))"

text \<open>The two literals with an accented letter (e acute is the character \<open>0xE9\<close>): the default unit and the description of a category the import creates.\<close>

definition Unite :: string where
  "Unite = ''Unit'' @ [CHR 0xE9]"

definition Importe_via_Excel :: string where
  "Importe_via_Excel = ''Import'' @ [CHR 0xE9] @ '' via Excel''"

text \<open>The object \<^verbatim>\<open>productData\<close> before the category is handled (source lines 234-242).\<close>

definition build_productData :: "pcolmap \<Rightarrow> row \<Rightarrow> cell \<Rightarrow> product" where
  "build_productData cm r nom =
     \<lparr>p_nom = trim (js_String nom),
      p_description =
        (if pc_description cm \<noteq> - 1
         then Some (trim (js_String (cell_at r (pc_description cm)))) else None),
      p_unite =
        (if pc_unite cm \<noteq> - 1 \<and> truthy (cell_at r (pc_unite cm))
         then trim (js_String (cell_at r (pc_unite cm))) else Unite),
      p_seuil_alerte =
        (if pc_seuil cm \<noteq> - 1
         then (case parseInt (js_String (cell_at r (pc_seuil cm))) of
                 Some n \<Rightarrow> if n \<noteq> 0 then n else 5
               | None \<Rightarrow> 5)
         else 5),
      p_statut = ''OK'',
      p_quantite_actuelle = 0,
      p_code_produit =
        (if pc_code cm \<noteq> - 1 \<and> truthy (cell_at r (pc_code cm))
         then Some (trim (js_String (cell_at r (pc_code cm)))) else None),
      p_category_id = None\<rparr>"

text \<open>
  The category of the row (source lines 244-252): looked up by its trimmed name, created
  when there is none; the result is \<^verbatim>\<open>productData\<close> with \<^verbatim>\<open>category_id\<close> set.
\<close>

definition handle_category :: "'s env \<Rightarrow> pcolmap \<Rightarrow> row \<Rightarrow> product \<Rightarrow> (product, 's) call" where
  "handle_category env cm r productData =
     (if pc_categorie cm \<noteq> - 1 \<and> truthy (cell_at r (pc_categorie cm)) then
        (let catName = trim (js_String (cell_at r (pc_categorie cm))) in
         bind_call (Category_findOne env (\<lambda>c. c_nom c = catName))
           (\<lambda>category.
         bind_call
           (case category of
              Some (cid, _) \<Rightarrow> return_call cid
            | None \<Rightarrow> Category_create env \<lparr>c_nom = catName, c_description = Importe_via_Excel\<rparr>)
           (\<lambda>cid. return_call (productData\<lparr>p_category_id := Some cid\<rparr>))))
      else return_call productData)"

text \<open>
  \<^verbatim>\<open>existingProduct.update(productData)\<close>: every key of \<^verbatim>\<open>productData\<close> is written;
  \<^verbatim>\<open>category_id\<close> is a key of it only when the row has a category.
\<close>

definition product_update_fields :: "product \<Rightarrow> product \<Rightarrow> product" where
  "product_update_fields productData p =
     p\<lparr>p_nom := p_nom productData,
       p_description := p_description productData,
       p_unite := p_unite productData,
       p_seuil_alerte := p_seuil_alerte productData,
       p_statut := p_statut productData,
       p_quantite_actuelle := p_quantite_actuelle productData,
       p_code_produit := p_code_produit productData,
       p_category_id := (case p_category_id productData of
                           Some cid \<Rightarrow> Some cid | None \<Rightarrow> p_category_id p)\<rparr>"

text \<open>The lookup and the write (source lines 254-265).\<close>

definition upsert_product :: "'s env \<Rightarrow> product \<Rightarrow> (upsert, 's) call" where
  "upsert_product env productData =
     bind_call
       (if str_truthy (p_code_produit productData)
        then Product_findOne env (\<lambda>p. p_code_produit p = p_code_produit productData)
        else return_call None)
       (\<lambda>byCode.
     bind_call
       (if byCode = None then Product_findOne env (\<lambda>p. p_nom p = p_nom productData)
        else return_call byCode)
       (\<lambda>existingProduct.
     case existingProduct of
       Some (key, _) \<Rightarrow>
         bind_call (Product_update env key (product_update_fields productData))
           (\<lambda>_. return_call Updated)
     | None \<Rightarrow>
         bind_call (Product_create env productData) (\<lambda>_. return_call Created)))"

text \<open>\<^verbatim>\<open>`Ligne ${i + 1} (${nom}): `\<close>\<close>

definition product_error_line :: "nat \<Rightarrow> cell \<Rightarrow> string" where
  "product_error_line i nom = ''Ligne '' @ nat_to_string (i + 1) @ '' ('' @ js_String nom @ ''): ''"

text \<open>One iteration of the loop (source lines 208-270).\<close>

definition product_iter ::
  "'s env \<Rightarrow> nat \<Rightarrow> row \<Rightarrow> (pcolmap, 's) istate \<Rightarrow> (pcolmap, 's) istate" where
  "product_iter env i r st =
     (let rowStr = rowStr_of r in
      if is_product_header rowStr
      then st\<lparr>headerRowIndex := int i, colMap := map_product_columns rowStr (colMap st)\<rparr>
      else if headerRowIndex st \<noteq> - 1 \<and> int i > headerRowIndex st then
        (if pc_nom (colMap st) = - 1 then st
         else
           let nom = cell_at r (pc_nom (colMap st))
           in if \<not> truthy nom then st
              else
                let (res, s') =
                      bind_call (handle_category env (colMap st) r (build_productData (colMap st) r nom))
                        (upsert_product env) (db st)
                in st\<lparr>stats := count_outcome (product_error_line i nom) res
                                  ((stats st)\<lparr>total := total (stats st) + 1\<rparr>),
                      db := s'\<rparr>)
      else st)"

fun product_loop ::
  "'s env \<Rightarrow> nat \<Rightarrow> grid \<Rightarrow> (pcolmap, 's) istate \<Rightarrow> (pcolmap, 's) istate" where
  "product_loop env i [] st = st"
| "product_loop env i (r # rs) st = product_loop env (i + 1) rs (product_iter env i r st)"

definition product_init :: "'s \<Rightarrow> (pcolmap, 's) istate" where
  "product_init s = \<lparr>stats = stats0, headerRowIndex = - 1, colMap = pcolmap0, db = s\<rparr>"

definition importProductsFromExcel :: "'s env \<Rightarrow> grid \<Rightarrow> 's \<Rightarrow> stats \<times> 's" where
  "importProductsFromExcel env data s =
     (let st = product_loop env 0 data (product_init s) in (stats st, db st))"

section \<open>importWorkers (worker controller)\<close>

text \<open>
  The second worker import reads the grid without \<^verbatim>\<open>defval\<close>, keeps its column map in
  fixed default indices until a header row changes them, and counts successes only.
\<close>

record ccolmap =
  cc_prenom :: int
  cc_nom :: int
  cc_ni :: int
  cc_tel :: int
  cc_adresse :: int
  cc_salaire :: int
  cc_naissance :: int

definition ccolmap0 :: ccolmap where
  "ccolmap0 = \<lparr>cc_prenom = 1, cc_nom = 2, cc_ni = 3, cc_tel = 4, cc_adresse = 5,
               cc_salaire = 6, cc_naissance = 7\<rparr>"

record 's cstate =
  currentSite_c :: string
  successCount :: nat
  errors_c :: "string list"
  colMap_c :: ccolmap
  db_c :: 's

subsection \<open>JSON.stringify of a row\<close>

definition hex_digit_char :: "nat \<Rightarrow> char" where
  "hex_digit_char d = (if d < 16 then ''0123456789abcdef'' ! d else CHR ''?'')"

definition json_escape :: "char \<Rightarrow> string" where
  "json_escape c = (let n = (of_char c :: nat) in
     if c = CHR 0x22 then [CHR 0x5C, CHR 0x22]
     else if c = CHR 0x5C then [CHR 0x5C, CHR 0x5C]
     else if n = 8 then [CHR 0x5C, CHR ''b'']
     else if n = 12 then [CHR 0x5C, CHR ''f'']
     else if n = 10 then [CHR 0x5C, CHR ''n'']
     else if n = 13 then [CHR 0x5C, CHR ''r'']
     else if n = 9 then [CHR 0x5C, CHR ''t'']
     else if n < 32 then [CHR 0x5C, CHR ''u'', CHR ''0'', CHR ''0'',
                          hex_digit_char (n div 16), hex_digit_char (n mod 16)]
     else [c])"

fun json_cell :: "cell \<Rightarrow> string" where
  "json_cell (CStr s) = [CHR 0x22] @ concat (map json_escape s) @ [CHR 0x22]"
| "json_cell (CNum n) = int_to_string n"
| "json_cell (CBool b) = (if b then ''true'' else ''false'')"
| "json_cell CNull = ''null''"
| "json_cell CUndef = ''null''"

fun join_comma :: "string list \<Rightarrow> string" where
  "join_comma [] = []"
| "join_comma [x] = x"
| "join_comma (x # y # ys) = x @ '','' @ join_comma (y # ys)"

definition JSON_stringify :: "row \<Rightarrow> string" where
  "JSON_stringify r = ''['' @ join_comma (map json_cell r) @ '']''"

subsection \<open>The loop\<close>

text \<open>\<^verbatim>\<open>row.filter(c => c !== null && c !== undefined && c !== '').length\<close>\<close>

definition rowContent :: "row \<Rightarrow> nat" where
  "rowContent r = length (filter (\<lambda>c. c \<noteq> CNull \<and> c \<noteq> CUndef \<and> c \<noteq> CStr []) r)"

text \<open>
  The body of \<^verbatim>\<open>row.forEach((cell, index) => ...)\<close>: here the tests are independent
  \<^verbatim>\<open>if\<close>s, so one cell may set several indices.
\<close>

definition map_controller_col :: "nat \<times> cell \<Rightarrow> ccolmap \<Rightarrow> ccolmap" where
  "map_controller_col = (\<lambda>(index, c) cm0.
     let val = trim (toUpperCase (js_String c));
         cm1 = (if str_includes val ''PRENOM'' then cm0\<lparr>cc_prenom := int index\<rparr> else cm0);
         cm2 = (if str_includes val ''NOM'' \<and> \<not> str_includes val ''PRENOM''
                then cm1\<lparr>cc_nom := int index\<rparr> else cm1);
         cm3 = (if str_includes val ''N.I'' \<or> str_includes val ''CNI''
                then cm2\<lparr>cc_ni := int index\<rparr> else cm2);
         cm4 = (if str_includes val ''TELEPHONE'' then cm3\<lparr>cc_tel := int index\<rparr> else cm3);
         cm5 = (if str_includes val ''ADRESSE'' then cm4\<lparr>cc_adresse := int index\<rparr> else cm4);
         cm6 = (if str_includes val ''SALAIRE'' then cm5\<lparr>cc_salaire := int index\<rparr> else cm5)
     in if str_includes val ''ON'' then cm6\<lparr>cc_naissance := int index\<rparr> else cm6)"

text \<open>\<^verbatim>\<open>row.find(c => typeof c === 'string' && c.trim().length > 2)\<close>\<close>

fun find_potentialName :: "row \<Rightarrow> string option" where
  "find_potentialName [] = None"
| "find_potentialName (CStr s # cs) = (if length (trim s) > 2 then Some s else find_potentialName cs)"
| "find_potentialName (c # cs) = find_potentialName cs"

text \<open>
  \<^verbatim>\<open>s.replace(/LES TECHNICIENS DE SURFACE DE/i, '')\<close>: the first place where the pattern
  matches, letter case ignored character by character, is cut out.
\<close>

definition canonicalize :: "char \<Rightarrow> char" where
  "canonicalize c = (case toUpper1 c of [u] \<Rightarrow> u | _ \<Rightarrow> c)"

fun remove_first_ci :: "string \<Rightarrow> string \<Rightarrow> string" where
  "remove_first_ci pat [] = []"
| "remove_first_ci pat (c # cs) =
     (if length pat \<le> length (c # cs) \<and> map canonicalize (take (length pat) (c # cs)) = pat
      then drop (length pat) (c # cs)
      else c # remove_first_ci pat cs)"

definition controller_site :: "string \<Rightarrow> string" where
  "controller_site potentialName =
     (let site = trim potentialName in
      if str_includes (toUpperCase site) ''LES TECHNICIENS DE SURFACE DE''
      then trim (remove_first_ci ''LES TECHNICIENS DE SURFACE DE'' site)
      else site)"

text \<open>The birth date, parsed in line (source lines 381-396 of the controller).\<close>

definition controller_date :: "(string \<Rightarrow> jsdate) \<Rightarrow> cell \<Rightarrow> jsdate option" where
  "controller_date parse c =
     (if \<not> truthy c then None
      else case c of
        CNum n \<Rightarrow> Some (new_Date_ms ((n - 25569) * 86400 * 1000))
      | CStr s \<Rightarrow>
          (let parts = split_on CHR ''/'' s in
           if length parts = 3 then Some (parse (parts ! 2 @ ''-'' @ parts ! 1 @ ''-'' @ parts ! 0))
           else Some (parse s))
      | _ \<Rightarrow> Some (new_Date_ms 1))"

text \<open>The salary: \<^verbatim>\<open>parseFloat\<close> of the cleaned text, and \<open>0\<close> for \<open>NaN\<close> when
  \<^verbatim>\<open>workerData\<close> is built.\<close>

definition controller_salary :: "cell \<Rightarrow> jsnum" where
  "controller_salary c =
     (let salaire_base = (if truthy c then parseFloat (replace_comma (strip_ws (js_String c)))
                          else Num 0)
      in if salaire_base = NaN then Num 0 else salaire_base)"

definition opt_trimmed :: "cell \<Rightarrow> string option" where
  "opt_trimmed c = (if truthy c then Some (trim (js_String c)) else None)"

definition controller_workerData ::
  "(string \<Rightarrow> jsdate) \<Rightarrow> jsdate \<Rightarrow> nat \<Rightarrow> ccolmap \<Rightarrow> string \<Rightarrow> row \<Rightarrow> worker" where
  "controller_workerData parse today user_id cm site r =
     \<lparr>w_prenom = trim (js_String (cell_at r (cc_prenom cm))),
      w_nom = trim (js_String (cell_at r (cc_nom cm))),
      w_poste = ''Technicien de surface'',
      w_site_affectation = site,
      w_statut = ''ACTIF'',
      w_date_embauche = Some today,
      w_date_naissance = controller_date parse (cell_at r (cc_naissance cm)),
      w_email = None,
      w_cin = opt_trimmed (cell_at r (cc_ni cm)),
      w_contact = opt_trimmed (cell_at r (cc_tel cm)),
      w_adresse = opt_trimmed (cell_at r (cc_adresse cm)),
      w_salaire_base = controller_salary (cell_at r (cc_salaire cm)),
      w_created_by = Some user_id\<rparr>"

text \<open>\<^verbatim>\<open>worker.update(workerData)\<close>: every key of \<^verbatim>\<open>workerData\<close> (all fields but the
  e-mail address) is written.\<close>

definition controller_update_fields :: "worker \<Rightarrow> worker \<Rightarrow> worker" where
  "controller_update_fields workerData w = workerData\<lparr>w_email := w_email w\<rparr>"

definition controller_upsert :: "'s env \<Rightarrow> worker \<Rightarrow> (unit, 's) call" where
  "controller_upsert env workerData =
     bind_call
       (if str_truthy (w_cin workerData)
        then Worker_findOne env (\<lambda>w. w_cin w = w_cin workerData)
        else return_call None)
       (\<lambda>byCin.
     bind_call
       (if byCin = None
        then Worker_findOne env (\<lambda>w. w_nom w = w_nom workerData \<and> w_prenom w = w_prenom workerData)
        else return_call byCin)
       (\<lambda>worker.
     case worker of
       Some (key, _) \<Rightarrow> Worker_update env key (controller_update_fields workerData)
     | None \<Rightarrow> Worker_create env workerData))"

text \<open>The header test of the controller, on the upper-cased JSON text of the row.\<close>

definition is_controller_header :: "string \<Rightarrow> bool" where
  "is_controller_header rowStr = (str_includes rowStr ''PRENOMS'' \<and> str_includes rowStr ''NOMS'')"

text \<open>The site row test (source lines 351-366 of the controller): the new site when the
  row switches the site, \<open>None\<close> when the row falls through to the worker data.\<close>

definition controller_site_row :: "row \<Rightarrow> string \<Rightarrow> string option" where
  "controller_site_row r rowStr =
     (if rowContent r \<le> 2 \<and> \<not> str_includes rowStr ''PRENOMS'' \<and> \<not> str_includes rowStr ''NOMS''
      then (case find_potentialName r of
              Some potentialName \<Rightarrow>
                if \<not> List.member [''PRENOMS'', ''NOMS'', ''SALAIRES''] (toUpperCase potentialName)
                then Some (controller_site potentialName) else None
            | None \<Rightarrow> None)
      else None)"

definition controller_iter :: "'s env \<Rightarrow> nat \<Rightarrow> nat \<Rightarrow> row \<Rightarrow> 's cstate \<Rightarrow> 's cstate" where
  "controller_iter env user_id i r st =
     (if length r = 0 then st
      else if rowContent r = 0 then st
      else
        let rowStr = toUpperCase (JSON_stringify r) in
        if is_controller_header rowStr
        then st\<lparr>colMap_c := fold map_controller_col (enumerate 0 r) (colMap_c st)\<rparr>
        else
          (case controller_site_row r rowStr of
             Some site \<Rightarrow> st\<lparr>currentSite_c := site\<rparr>
           | None \<Rightarrow>
               if \<not> truthy (cell_at r (cc_nom (colMap_c st)))
                  \<or> \<not> truthy (cell_at r (cc_prenom (colMap_c st))) then st
               else
                 (case controller_upsert env
                         (controller_workerData (date_parse env) (clock env i) user_id
                            (colMap_c st) (currentSite_c st) r) (db_c st) of
                    (Inr _, s') \<Rightarrow> st\<lparr>successCount := successCount st + 1, db_c := s'\<rparr>
                  | (Inl msg, s') \<Rightarrow>
                      st\<lparr>errors_c := errors_c st
                                        @ [''Erreur ligne '' @ nat_to_string (i + 1) @ '': '' @ msg],
                         db_c := s'\<rparr>)))"

fun controller_loop :: "'s env \<Rightarrow> nat \<Rightarrow> nat \<Rightarrow> grid \<Rightarrow> 's cstate \<Rightarrow> 's cstate" where
  "controller_loop env user_id i [] st = st"
| "controller_loop env user_id i (r # rs) st =
     controller_loop env user_id (i + 1) rs (controller_iter env user_id i r st)"

definition controller_init :: "'s \<Rightarrow> 's cstate" where
  "controller_init s = \<lparr>currentSite_c = ''SALIHATE CLEAN SERVICES'', successCount = 0,
                        errors_c = [], colMap_c = ccolmap0, db_c = s\<rparr>"

text \<open>The handler, from the grid \<^verbatim>\<open>rows\<close> and the id of the user of the request: the
  count and the errors of the response, and the store it leaves.\<close>

definition importWorkers :: "'s env \<Rightarrow> nat \<Rightarrow> grid \<Rightarrow> 's \<Rightarrow> (nat \<times> string list) \<times> 's" where
  "importWorkers env user_id rows s =
     (let st = controller_loop env user_id 0 rows (controller_init s)
      in ((successCount st, errors_c st), db_c st))"

section \<open>An in-memory store\<close>

text \<open>
  Modelled from the spec: the persistence layer (the Sequelize models \<^verbatim>\<open>Worker\<close>,
  \<^verbatim>\<open>Product\<close> and \<^verbatim>\<open>Category\<close> of \<^verbatim>\<open>../models\<close>), of which the spec says that it is an
  entity store exposing \<^verbatim>\<open>findOne(predicate)\<close>, \<^verbatim>\<open>create(data)\<close> and \<^verbatim>\<open>update(data)\<close>
  per entity type. A table is the list of its records in insertion order, the primary key
  of a record is its position, \<^verbatim>\<open>findOne\<close> returns the first record that satisfies the
  predicate, and no call fails.
\<close>

record memstore =
  workers :: "worker list"
  products :: "product list"
  categories :: "category list"

fun find_from :: "nat \<Rightarrow> ('a \<Rightarrow> bool) \<Rightarrow> 'a list \<Rightarrow> (nat \<times> 'a) option" where
  "find_from k P [] = None"
| "find_from k P (x # xs) = (if P x then Some (k, x) else find_from (Suc k) P xs)"

definition update_at :: "nat \<Rightarrow> ('a \<Rightarrow> 'a) \<Rightarrow> 'a list \<Rightarrow> 'a list" where
  "update_at k f xs = (if k < length xs then xs[k := f (xs ! k)] else xs)"

definition mem_env :: "memstore env" where
  "mem_env =
     \<lparr>date_parse = date_only_parse,
      clock = (\<lambda>i. DateMs 0),
      Worker_findOne = (\<lambda>P s. (Inr (find_from 0 P (workers s)), s)),
      Worker_create = (\<lambda>w s. (Inr (), s\<lparr>workers := workers s @ [w]\<rparr>)),
      Worker_update = (\<lambda>k f s. (Inr (), s\<lparr>workers := update_at k f (workers s)\<rparr>)),
      Product_findOne = (\<lambda>P s. (Inr (find_from 0 P (products s)), s)),
      Product_create = (\<lambda>p s. (Inr (), s\<lparr>products := products s @ [p]\<rparr>)),
      Product_update = (\<lambda>k f s. (Inr (), s\<lparr>products := update_at k f (products s)\<rparr>)),
      Category_findOne = (\<lambda>P s. (Inr (find_from 0 P (categories s)), s)),
      Category_create = (\<lambda>c s. (Inr (length (categories s)), s\<lparr>categories := categories s @ [c]\<rparr>))\<rparr>"

definition empty_store :: memstore where
  "empty_store = \<lparr>workers = [], products = [], categories = []\<rparr>"

section \<open>Notions used in the statements\<close>

text \<open>
  The text of a salary cell that \<^verbatim>\<open>parseFloat\<close> can read a number from: after white space
  and an optional sign it starts with a digit, with a point followed by a digit, or with
  \<^verbatim>\<open>Infinity\<close>. A cell without such a start is what the statements call non-numeric.
\<close>

definition numeric_prefix :: "string \<Rightarrow> bool" where
  "numeric_prefix s =
     (let u = snd (take_sign (dropWhile is_ws s)) in
      prefix ''Infinity'' u
      \<or> (case u of
            [] \<Rightarrow> False
          | c # cs \<Rightarrow> is_digit c \<or> (c = CHR ''.'' \<and> (case cs of [] \<Rightarrow> False | d # _ \<Rightarrow> is_digit d))))"

text \<open>
  The text of a cell that is a number as a whole: an optional sign, digits with an optional
  fraction (or a fraction alone), an optional exponent, and nothing else around it but
  white space.
\<close>

definition decimal_number_text :: "string \<Rightarrow> bool" where
  "decimal_number_text s =
     (let u = snd (take_sign (trim s));
          ip = takeWhile is_digit u;
          r1 = dropWhile is_digit u;
          fp = (case r1 of [] \<Rightarrow> [] | c # r \<Rightarrow> if c = CHR ''.'' then takeWhile is_digit r else []);
          r2 = (case r1 of [] \<Rightarrow> [] | c # r \<Rightarrow> if c = CHR ''.'' then dropWhile is_digit r else r1)
      in (ip \<noteq> [] \<or> fp \<noteq> [])
         \<and> (case r2 of
               [] \<Rightarrow> True
             | c # r \<Rightarrow> (c = CHR ''e'' \<or> c = CHR ''E'')
                         \<and> (let d = snd (take_sign r) in d \<noteq> [] \<and> list_all is_digit d)))"

text \<open>
  The data rows of a grid are the records the import builds from it. They are read off a
  run of the import itself, against a store in which no lookup finds anything, so that
  every counted row ends in \<^verbatim>\<open>create\<close> and the table lists the rows in order.
\<close>

definition blind_env :: "memstore env" where
  "blind_env = mem_env\<lparr>Worker_findOne := (\<lambda>P s. (Inr None, s)),
                         Product_findOne := (\<lambda>P s. (Inr None, s))\<rparr>"

definition worker_data_rows :: "grid \<Rightarrow> worker list" where
  "worker_data_rows data = workers (snd (importWorkersFromExcel blind_env data empty_store))"

definition product_data_rows :: "grid \<Rightarrow> product list" where
  "product_data_rows data = products (snd (importProductsFromExcel blind_env data empty_store))"

subsection \<open>Sample sheets\<close>

text \<open>Rows above any header: a title line and a filled line.\<close>

definition preamble_rows :: grid where
  "preamble_rows = [[CStr ''LISTE DU PERSONNEL'', CStr [], CStr [], CStr []],
                    [CStr ''1'', CStr ''Awa'', CStr ''Diop'', CStr ''SN-12345'']]"

text \<open>A filled line as the controller's default column indices expect it, with no header
  above it.\<close>

definition early_rows :: grid where
  "early_rows = [[CStr [], CStr ''Awa'', CStr ''Diop'', CStr ''SN-12345'']]"

text \<open>A worker sheet: header, a worker with a national ID, a site line, a second worker.\<close>

definition staff_header :: row where
  "staff_header = [CStr ''PRENOMS'', CStr ''NOMS'', CStr ''N.I'']"

definition staff_grid :: grid where
  "staff_grid = [staff_header,
                 [CStr ''Awa'', CStr ''Diop'', CStr ''SN-12345''],
                 [CStr ''SITE DAKAR'', CStr [], CStr []],
                 [CStr ''Moussa'', CStr ''Fall'', CStr ''SN-67890'']]"

text \<open>The lines of such sheets, one by one: two workers, a site line, a product.\<close>

definition awa_row :: row where
  "awa_row = [CStr ''Awa'', CStr ''Diop'', CStr ''SN-12345'']"

definition moussa_row :: row where
  "moussa_row = [CStr ''Moussa'', CStr ''Fall'', CStr ''SN-67890'']"

definition site_row :: row where
  "site_row = [CStr ''SITE DAKAR'', CStr [], CStr []]"

definition savon_row :: row where
  "savon_row = [CStr ''P001'', CStr ''Savon'', CStr ''Hygiene'']"

text \<open>A line whose only cell names the technicians of a site.\<close>

definition technicians_row :: row where
  "technicians_row = [CStr ''LES TECHNICIENS DE SURFACE DE DAKAR'', CStr [], CStr []]"

text \<open>A product sheet in which the second and third row change the name and then the
  code of the product of the first row.\<close>

definition product_header :: row where
  "product_header = [CStr ''CODE'', CStr ''NOM DU PRODUIT'', CStr ''CATEGORIE'']"

definition shared_keys_grid :: grid where
  "shared_keys_grid = [product_header,
     [CStr ''A'', CStr ''X'', CStr []],
     [CStr ''A'', CStr ''Y'', CStr []],
     [CStr ''B'', CStr ''Y'', CStr []]]"

text \<open>A product sheet with one code per name.\<close>

definition catalogue_grid :: grid where
  "catalogue_grid = [product_header,
     [CStr ''P001'', CStr ''Savon'', CStr ''Hygiene''],
     [CStr ''P002'', CStr ''Balai'', CStr ''Hygiene'']]"

text \<open>The loop state of the product import right after \<open>product_header\<close> at index 0.\<close>

definition after_product_header :: "(pcolmap, memstore) istate" where
  "after_product_header =
     \<lparr>stats = stats0, headerRowIndex = 0,
      colMap = \<lparr>pc_code = 0, pc_nom = 1, pc_categorie = 2, pc_unite = - 1, pc_seuil = - 1,
                pc_description = - 1\<rparr>,
      db = empty_store\<rparr>"

text \<open>A store that holds one product with stock, and a sheet that names it again.\<close>

definition savon_store :: memstore where
  "savon_store =
     \<lparr>workers = [],
      products = [\<lparr>p_nom = ''Savon'', p_description = Some ''Savon liquide'', p_unite = ''Litre'',
                   p_seuil_alerte = 10, p_statut = ''ALERTE'', p_quantite_actuelle = 40,
                   p_code_produit = Some ''P001'', p_category_id = Some 0\<rparr>],
      categories = [\<lparr>c_nom = ''Hygiene'', c_description = []\<rparr>]\<rparr>"

definition savon_grid :: grid where
  "savon_grid = [[CStr ''Nom du produit''], [CStr ''Savon'']]"

text \<open>A store that refuses to create workers: \<^verbatim>\<open>Worker.create\<close> throws.\<close>

definition refusing_env :: "memstore env" where
  "refusing_env = mem_env\<lparr>Worker_create := (\<lambda>w s. (Inl ''Validation error'', s))\<rparr>"

section \<open>Auxiliary definitions of the proofs\<close>

text \<open>The invariant of the statistics, for a sheet of \<open>n\<close> rows.\<close>

definition line_prefix :: "nat \<Rightarrow> string" where
  "line_prefix i = ''Ligne '' @ nat_to_string (i + 1) @ '' (''"

definition stats_ok :: "nat \<Rightarrow> stats \<Rightarrow> bool" where
  "stats_ok n st = (length (errors st) + created st + updated st = total st
     \<and> list_all (\<lambda>e. \<exists>i<n. prefix (line_prefix i) e) (errors st))"

text \<open>What the in-memory store finds for a record of the import.\<close>

definition mem_find_worker :: "worker \<Rightarrow> worker list \<Rightarrow> (nat \<times> worker) option" where
  "mem_find_worker wd ws =
     (if str_truthy (w_cin wd) then find_from 0 (\<lambda>w. w_cin w = w_cin wd) ws
      else if str_truthy (w_contact wd)
      then find_from 0 (\<lambda>w. w_prenom w = w_prenom wd \<and> w_nom w = w_nom wd \<and> w_contact w = w_contact wd) ws
      else None)"

definition mem_find_product :: "product \<Rightarrow> product list \<Rightarrow> (nat \<times> product) option" where
  "mem_find_product pd ps =
     (case (if str_truthy (p_code_produit pd)
            then find_from 0 (\<lambda>p. p_code_produit p = p_code_produit pd) ps else None) of
        Some hit \<Rightarrow> Some hit
      | None \<Rightarrow> find_from 0 (\<lambda>p. p_nom p = p_nom pd) ps)"

text \<open>
  The part of a loop iteration that does not touch the store: which record a row yields,
  if it is counted, and how the header index, the column map and the site move on.
\<close>

definition worker_payload ::
  "(string \<Rightarrow> jsdate) \<Rightarrow> jsdate \<Rightarrow> nat \<Rightarrow> row \<Rightarrow> int \<Rightarrow> wcolmap \<Rightarrow> string \<Rightarrow> worker option" where
  "worker_payload parse today i r h cm site =
     (if \<not> is_site_banner r \<and> \<not> is_worker_header (rowStr_of r) \<and> h \<noteq> - 1 \<and> int i > h
         \<and> cm_prenom cm \<noteq> - 1 \<and> cm_nom cm \<noteq> - 1
         \<and> truthy (cell_at r (cm_prenom cm)) \<and> truthy (cell_at r (cm_nom cm))
         \<and> \<not> (length (nonEmptyCells r) = 1 \<and> length (potentialSite r) > 3)
      then Some (build_workerData parse today cm site r (cell_at r (cm_prenom cm)) (cell_at r (cm_nom cm)))
      else None)"

definition worker_scan :: "nat \<Rightarrow> row \<Rightarrow> int \<times> wcolmap \<times> string \<Rightarrow> int \<times> wcolmap \<times> string" where
  "worker_scan i r = (\<lambda>(h, cm, site).
     if is_site_banner r then (h, cm, potentialSite r)
     else if is_worker_header (rowStr_of r) then (int i, map_worker_columns (rowStr_of r) cm, site)
     else if h \<noteq> - 1 \<and> int i > h \<and> cm_prenom cm \<noteq> - 1 \<and> cm_nom cm \<noteq> - 1
             \<and> truthy (cell_at r (cm_prenom cm)) \<and> truthy (cell_at r (cm_nom cm))
             \<and> length (nonEmptyCells r) = 1 \<and> length (potentialSite r) > 3
     then (h, cm, potentialSite r)
     else (h, cm, site))"

definition scan_of :: "(wcolmap, 's) wstate \<Rightarrow> int \<times> wcolmap \<times> string" where
  "scan_of st = (headerRowIndex st, colMap st, currentSite st)"

definition pay :: "nat \<Rightarrow> row \<Rightarrow> int \<times> wcolmap \<times> string \<Rightarrow> worker option" where
  "pay i r = (\<lambda>(h, cm, site). worker_payload date_only_parse (DateMs 0) i r h cm site)"

definition product_payload :: "nat \<Rightarrow> row \<Rightarrow> int \<times> pcolmap \<Rightarrow> product option" where
  "product_payload i r = (\<lambda>(h, cm).
     if \<not> is_product_header (rowStr_of r) \<and> h \<noteq> - 1 \<and> int i > h \<and> pc_nom cm \<noteq> - 1
        \<and> truthy (cell_at r (pc_nom cm))
     then Some (build_productData cm r (cell_at r (pc_nom cm))) else None)"

definition product_scan :: "nat \<Rightarrow> row \<Rightarrow> int \<times> pcolmap \<Rightarrow> int \<times> pcolmap" where
  "product_scan i r = (\<lambda>(h, cm).
     if is_product_header (rowStr_of r) then (int i, map_product_columns (rowStr_of r) cm)
     else (h, cm))"

definition pscan_of :: "(pcolmap, 's) istate \<Rightarrow> int \<times> pcolmap" where
  "pscan_of st = (headerRowIndex st, colMap st)"

text \<open>The national IDs in the worker table; code and name of a product, the pairs of them
  in the product table, and the two properties of a set of such pairs the proof follows.\<close>

definition cins :: "memstore \<Rightarrow> string option set" where
  "cins s = w_cin ` set (workers s)"

definition pkey :: "product \<Rightarrow> string option \<times> string" where
  "pkey p = (p_code_produit p, p_nom p)"

definition pkeys :: "memstore \<Rightarrow> (string option \<times> string) set" where
  "pkeys s = pkey ` set (products s)"

definition has_code :: "(string option \<times> string) set \<Rightarrow> memstore \<Rightarrow> string option \<Rightarrow> bool" where
  "has_code K s c = (\<exists>p \<in> set (products s). p_code_produit p = c \<and> pkey p \<in> K)"

definition name_fixes_code :: "(string option \<times> string) set \<Rightarrow> bool" where
  "name_fixes_code K = (\<forall>k \<in> K. \<forall>k' \<in> K. snd k = snd k' \<longrightarrow> fst k = fst k')"

section \<open>The loops, row by row\<close>

lemma worker_loop_append:
  "worker_loop env i (xs @ ys) st = worker_loop env (i + length xs) ys (worker_loop env i xs st)"
  by (induction xs arbitrary: i st) simp_all

lemma product_loop_append:
  "product_loop env i (xs @ ys) st = product_loop env (i + length xs) ys (product_loop env i xs st)"
  by (induction xs arbitrary: i st) simp_all

section \<open>Header gating\<close>

lemma worker_iter_before_header:
  assumes "headerRowIndex st = - 1" "\<not> is_worker_header (rowStr_of r)"
  shows "stats (worker_iter env i r st) = stats st \<and> db (worker_iter env i r st) = db st
         \<and> headerRowIndex (worker_iter env i r st) = - 1"
  using assms by (simp add: worker_iter_def Let_def)

lemma worker_loop_before_header:
  assumes "list_all (\<lambda>r. \<not> is_worker_header (rowStr_of r)) rows" "headerRowIndex st = - 1"
  shows "stats (worker_loop env i rows st) = stats st \<and> db (worker_loop env i rows st) = db st"
  using assms
proof (induction rows arbitrary: i st)
  case Nil
  then show ?case by simp
next
  case (Cons r rows)
  from Cons.prems have h: "\<not> is_worker_header (rowStr_of r)" by simp
  note step = worker_iter_before_header [OF Cons.prems(2) h, of env i]
  from Cons.prems have "list_all (\<lambda>r. \<not> is_worker_header (rowStr_of r)) rows" by simp
  from Cons.IH [OF this, of "worker_iter env i r st" "i + 1"] step
  show ?case by simp
qed

lemma product_iter_before_header:
  assumes "headerRowIndex st = - 1" "\<not> is_product_header (rowStr_of r)"
  shows "product_iter env i r st = st"
  using assms by (simp add: product_iter_def Let_def)

lemma product_loop_before_header:
  assumes "list_all (\<lambda>r. \<not> is_product_header (rowStr_of r)) rows" "headerRowIndex st = - 1"
  shows "product_loop env i rows st = st"
  using assms
  by (induction rows arbitrary: i) (simp_all add: product_iter_before_header)

text \<open>
  C1 (as amended). In the import service, for every grid and every store, processing the
  rows that precede the first recognised header row creates and updates nothing: when no
  row of \<open>pre\<close> passes the header test, the loop of \<open>importWorkersFromExcel\<close> and the
  loop of \<open>importProductsFromExcel\<close> reach the end of \<open>pre\<close> with the store and the
  statistics as they started, and the import of \<open>pre @ rest\<close> is the loop over \<open>rest\<close>
  from there. (The worker import may have switched the current site meanwhile.)
\<close>

theorem header_gating:
  "(list_all (\<lambda>r. \<not> is_worker_header (rowStr_of r)) pre \<longrightarrow>
      stats (worker_loop env 0 pre (worker_init s)) = stats0
      \<and> db (worker_loop env 0 pre (worker_init s)) = s)
   \<and> (list_all (\<lambda>r. \<not> is_product_header (rowStr_of r)) pre \<longrightarrow>
      stats (product_loop env 0 pre (product_init s)) = stats0
      \<and> db (product_loop env 0 pre (product_init s)) = s)
   \<and> importWorkersFromExcel env (pre @ rest) s =
       (let st = worker_loop env (length pre) rest (worker_loop env 0 pre (worker_init s))
        in (stats st, db st))
   \<and> importProductsFromExcel env (pre @ rest) s =
       (let st = product_loop env (length pre) rest (product_loop env 0 pre (product_init s))
        in (stats st, db st))"
proof -
  have w: "stats (worker_loop env 0 pre (worker_init s)) = stats0
      \<and> db (worker_loop env 0 pre (worker_init s)) = s"
    if "list_all (\<lambda>r. \<not> is_worker_header (rowStr_of r)) pre"
    using worker_loop_before_header [OF that, of "worker_init s" env 0]
    by (simp add: worker_init_def)
  have p: "stats (product_loop env 0 pre (product_init s)) = stats0
      \<and> db (product_loop env 0 pre (product_init s)) = s"
    if "list_all (\<lambda>r. \<not> is_product_header (rowStr_of r)) pre"
    using product_loop_before_header [OF that, of "product_init s" env 0]
    by (simp add: product_init_def)
  show ?thesis
    using w p
    by (simp add: importWorkersFromExcel_def importProductsFromExcel_def
        worker_loop_append product_loop_append)
qed

text \<open>The theorem at \<open>preamble_rows\<close>, two rows without a header, the second one filled
  like a worker line.\<close>

theorem header_gating_witness:
  "stats (worker_loop mem_env 0 preamble_rows (worker_init empty_store)) = stats0
   \<and> db (worker_loop mem_env 0 preamble_rows (worker_init empty_store)) = empty_store
   \<and> stats (product_loop mem_env 0 preamble_rows (product_init empty_store)) = stats0
   \<and> db (product_loop mem_env 0 preamble_rows (product_init empty_store)) = empty_store"
proof -
  have w: "list_all (\<lambda>r. \<not> is_worker_header (rowStr_of r)) preamble_rows" by code_simp
  have p: "list_all (\<lambda>r. \<not> is_product_header (rowStr_of r)) preamble_rows" by code_simp
  from header_gating [where pre = preamble_rows and env = mem_env and s = empty_store and rest = "[]"]
    w p show ?thesis by blast
qed

text \<open>
  The claim as stated also covers \<open>importWorkers\<close> of the worker controller, and there it
  fails: that loop has no header gate. With no header anywhere in the sheet, the filled
  line of \<open>early_rows\<close> is read through the default column indices and a worker is
  created.
\<close>

theorem controller_imports_before_header:
  "list_all (\<lambda>r. \<not> is_controller_header (toUpperCase (JSON_stringify r))) early_rows
   \<and> length (workers (snd (importWorkers mem_env 1 early_rows empty_store))) = 1
   \<and> fst (importWorkers mem_env 1 early_rows empty_store) = (1, [])"
  by code_simp

section \<open>The statistics\<close>

lemma prefix_worker_line: "prefix (line_prefix i) (worker_error_line i p n @ msg)"
  by (simp add: line_prefix_def worker_error_line_def)

lemma prefix_product_line: "prefix (line_prefix i) (product_error_line i n @ msg)"
  by (simp add: line_prefix_def product_error_line_def)

lemma count_outcome_ok:
  assumes "stats_ok n st" "i < n" "\<And>msg. prefix (line_prefix i) (line @ msg)"
  shows "stats_ok n (count_outcome line res (st\<lparr>total := Suc (total st)\<rparr>))"
  using assms by (auto simp: stats_ok_def count_outcome_def split: sum.splits upsert.splits)

text \<open>An iteration leaves the statistics alone or counts the row once, with one outcome.\<close>

lemma worker_iter_stats_cases:
  "stats (worker_iter env i r st) = stats st
   \<or> (\<exists>res. stats (worker_iter env i r st) =
        count_outcome (worker_error_line i (cell_at r (cm_prenom (colMap st))) (cell_at r (cm_nom (colMap st))))
          res ((stats st)\<lparr>total := total (stats st) + 1\<rparr>))"
  by (auto simp: worker_iter_def Let_def split: prod.splits)

lemma product_iter_stats_cases:
  "stats (product_iter env i r st) = stats st
   \<or> (\<exists>res. stats (product_iter env i r st) =
        count_outcome (product_error_line i (cell_at r (pc_nom (colMap st))))
          res ((stats st)\<lparr>total := total (stats st) + 1\<rparr>))"
  by (auto simp: product_iter_def Let_def split: prod.splits)

lemma worker_iter_stats_ok:
  assumes "stats_ok n (stats st)" "i < n"
  shows "stats_ok n (stats (worker_iter env i r st))"
  using worker_iter_stats_cases [of env i r st] assms
  by (auto intro!: count_outcome_ok [where i = i] prefix_worker_line)

lemma product_iter_stats_ok:
  assumes "stats_ok n (stats st)" "i < n"
  shows "stats_ok n (stats (product_iter env i r st))"
  using product_iter_stats_cases [of env i r st] assms
  by (auto intro!: count_outcome_ok [where i = i] prefix_product_line)

lemma worker_loop_stats_ok:
  "stats_ok n (stats st) \<Longrightarrow> i + length rows \<le> n \<Longrightarrow> stats_ok n (stats (worker_loop env i rows st))"
  by (induction rows arbitrary: i st) (simp_all add: worker_iter_stats_ok)

lemma product_loop_stats_ok:
  "stats_ok n (stats st) \<Longrightarrow> i + length rows \<le> n \<Longrightarrow> stats_ok n (stats (product_loop env i rows st))"
  by (induction rows arbitrary: i st) (simp_all add: product_iter_stats_ok)

lemma stats_ok_stats0: "stats_ok n stats0"
  by (simp add: stats_ok_def stats0_def)

lemma worker_stats_ok: "stats_ok (length data) (fst (importWorkersFromExcel env data s))"
proof -
  have "stats_ok (length data) (stats (worker_loop env 0 data (worker_init s)))"
    by (rule worker_loop_stats_ok) (simp_all add: worker_init_def stats_ok_stats0)
  then show ?thesis by (simp add: importWorkersFromExcel_def Let_def)
qed

lemma product_stats_ok: "stats_ok (length data) (fst (importProductsFromExcel env data s))"
proof -
  have "stats_ok (length data) (stats (product_loop env 0 data (product_init s)))"
    by (rule product_loop_stats_ok) (simp_all add: product_init_def stats_ok_stats0)
  then show ?thesis by (simp add: importProductsFromExcel_def Let_def)
qed

text \<open>Every counted row ends in exactly one of the three counters.\<close>

lemma import_statistics_exact:
  "length (errors (fst (importWorkersFromExcel env data s)))
     + created (fst (importWorkersFromExcel env data s))
     + updated (fst (importWorkersFromExcel env data s))
     = total (fst (importWorkersFromExcel env data s))
   \<and> length (errors (fst (importProductsFromExcel env data s)))
     + created (fst (importProductsFromExcel env data s))
     + updated (fst (importProductsFromExcel env data s))
     = total (fst (importProductsFromExcel env data s))"
  using worker_stats_ok [of data env s] product_stats_ok [of data env s]
  by (simp add: stats_ok_def)

text \<open>The message of a failing row carries the number of that very row: an iteration at
  index \<open>i\<close> adds no message or one message, which starts with \<^verbatim>\<open>Ligne\<close> and \<open>i + 1\<close>.\<close>

lemma count_outcome_errors:
  "errors (count_outcome line res st) = errors st
   \<or> (\<exists>msg. errors (count_outcome line res st) = errors st @ [line @ msg])"
  by (auto simp: count_outcome_def split: sum.splits upsert.splits)

lemma worker_iter_error_line:
  "errors (stats (worker_iter env i r st)) = errors (stats st)
   \<or> (\<exists>e. errors (stats (worker_iter env i r st)) = errors (stats st) @ [e]
          \<and> prefix (''Ligne '' @ nat_to_string (i + 1) @ '' ('') e)"
proof -
  let ?line = "worker_error_line i (cell_at r (cm_prenom (colMap st))) (cell_at r (cm_nom (colMap st)))"
  from worker_iter_stats_cases [of env i r st]
  consider "stats (worker_iter env i r st) = stats st"
    | res where "stats (worker_iter env i r st) =
        count_outcome ?line res ((stats st)\<lparr>total := total (stats st) + 1\<rparr>)"
    by blast
  then show ?thesis
  proof cases
    case 1
    then show ?thesis by simp
  next
    case (2 res)
    from count_outcome_errors [of ?line res "(stats st)\<lparr>total := total (stats st) + 1\<rparr>"]
    consider "errors (stats (worker_iter env i r st)) = errors (stats st)"
      | msg where "errors (stats (worker_iter env i r st)) = errors (stats st) @ [?line @ msg]"
      using 2 by auto
    then show ?thesis
    proof cases
      case 1
      then show ?thesis by simp
    next
      case (2 msg)
      moreover have "prefix (''Ligne '' @ nat_to_string (i + 1) @ '' ('') (?line @ msg)"
        using prefix_worker_line [of i _ _ msg] by (simp only: line_prefix_def)
      ultimately show ?thesis by blast
    qed
  qed
qed

lemma product_iter_error_line:
  "errors (stats (product_iter env i r st)) = errors (stats st)
   \<or> (\<exists>e. errors (stats (product_iter env i r st)) = errors (stats st) @ [e]
          \<and> prefix (''Ligne '' @ nat_to_string (i + 1) @ '' ('') e)"
proof -
  let ?line = "product_error_line i (cell_at r (pc_nom (colMap st)))"
  from product_iter_stats_cases [of env i r st]
  consider "stats (product_iter env i r st) = stats st"
    | res where "stats (product_iter env i r st) =
        count_outcome ?line res ((stats st)\<lparr>total := total (stats st) + 1\<rparr>)"
    by blast
  then show ?thesis
  proof cases
    case 1
    then show ?thesis by simp
  next
    case (2 res)
    from count_outcome_errors [of ?line res "(stats st)\<lparr>total := total (stats st) + 1\<rparr>"]
    consider "errors (stats (product_iter env i r st)) = errors (stats st)"
      | msg where "errors (stats (product_iter env i r st)) = errors (stats st) @ [?line @ msg]"
      using 2 by auto
    then show ?thesis
    proof cases
      case 1
      then show ?thesis by simp
    next
      case (2 msg)
      moreover have "prefix (''Ligne '' @ nat_to_string (i + 1) @ '' ('') (?line @ msg)"
        using prefix_product_line [of i _ msg] by (simp only: line_prefix_def)
      ultimately show ?thesis by blast
    qed
  qed
qed

text \<open>An iteration that counts its row counts the outcome of the store calls it makes
  for the record built from that row.\<close>

lemma worker_iter_stats_step:
  "stats (worker_iter env i r st) = stats st
   \<or> stats (worker_iter env i r st) =
       count_outcome (worker_error_line i (cell_at r (cm_prenom (colMap st))) (cell_at r (cm_nom (colMap st))))
         (fst (upsert_worker env
                (build_workerData (date_parse env) (clock env i) (colMap st) (currentSite st) r
                   (cell_at r (cm_prenom (colMap st))) (cell_at r (cm_nom (colMap st))))
                (db st)))
         ((stats st)\<lparr>total := total (stats st) + 1\<rparr>)"
  by (auto simp: worker_iter_def Let_def split: prod.splits)

lemma product_iter_stats_step:
  "stats (product_iter env i r st) = stats st
   \<or> stats (product_iter env i r st) =
       count_outcome (product_error_line i (cell_at r (pc_nom (colMap st))))
         (fst (bind_call (handle_category env (colMap st) r
                            (build_productData (colMap st) r (cell_at r (pc_nom (colMap st)))))
                 (upsert_product env) (db st)))
         ((stats st)\<lparr>total := total (stats st) + 1\<rparr>)"
  by (auto simp: product_iter_def Let_def split: prod.splits)

lemma count_outcome_cases:
  "(res = Inr Created \<and> count_outcome line res (st\<lparr>total := total st + 1\<rparr>)
        = st\<lparr>total := total st + 1, created := created st + 1\<rparr>)
   \<or> (res = Inr Updated \<and> count_outcome line res (st\<lparr>total := total st + 1\<rparr>)
        = st\<lparr>total := total st + 1, updated := updated st + 1\<rparr>)
   \<or> (\<exists>msg. res = Inl msg \<and> count_outcome line res (st\<lparr>total := total st + 1\<rparr>)
        = st\<lparr>total := total st + 1, errors := errors st @ [line @ msg]\<rparr>)"
  by (cases res; simp add: count_outcome_def split: upsert.splits)

text \<open>The list of messages only grows, at its end.\<close>

lemma worker_loop_errors_grow:
  "prefix (errors (stats st)) (errors (stats (worker_loop env i rows st)))"
proof (induction rows arbitrary: i st)
  case Nil
  then show ?case by simp
next
  case (Cons r rows)
  from worker_iter_error_line [of env i r st]
  have "prefix (errors (stats st)) (errors (stats (worker_iter env i r st)))"
    by (auto simp: prefix_def)
  from prefix_order.trans [OF this Cons.IH [of "worker_iter env i r st" "i + 1"]]
  show ?case by simp
qed

lemma product_loop_errors_grow:
  "prefix (errors (stats st)) (errors (stats (product_loop env i rows st)))"
proof (induction rows arbitrary: i st)
  case Nil
  then show ?case by simp
next
  case (Cons r rows)
  from product_iter_error_line [of env i r st]
  have "prefix (errors (stats st)) (errors (stats (product_iter env i r st)))"
    by (auto simp: prefix_def)
  from prefix_order.trans [OF this Cons.IH [of "product_iter env i r st" "i + 1"]]
  show ?case by simp
qed

text \<open>The row at index \<open>length pre\<close>: what processing it does to the statistics.\<close>

lemma worker_row_outcome:
  assumes "st = worker_loop env 0 pre (worker_init s)"
    "st' = worker_loop env 0 (pre @ [r]) (worker_init s)"
    "prenom = cell_at r (cm_prenom (colMap st))" "nom = cell_at r (cm_nom (colMap st))"
    "outcome = fst (upsert_worker env
                 (build_workerData (date_parse env) (clock env (length pre)) (colMap st)
                    (currentSite st) r prenom nom) (db st))"
  shows "stats st' = stats st
     \<or> (outcome = Inr Created
         \<and> stats st' = (stats st)\<lparr>total := total (stats st) + 1, created := created (stats st) + 1\<rparr>)
     \<or> (outcome = Inr Updated
         \<and> stats st' = (stats st)\<lparr>total := total (stats st) + 1, updated := updated (stats st) + 1\<rparr>)
     \<or> (\<exists>msg. outcome = Inl msg
         \<and> stats st' = (stats st)\<lparr>total := total (stats st) + 1,
              errors := errors (stats st) @
                [''Ligne '' @ nat_to_string (length pre + 1) @ '' ('' @ js_String prenom @ '' ''
                   @ js_String nom @ ''): '' @ msg]\<rparr>)"
proof -
  have st': "st' = worker_iter env (length pre) r st"
    using assms(1,2) by (simp add: worker_loop_append)
  let ?line = "worker_error_line (length pre) prenom nom"
  from worker_iter_stats_step [of env "length pre" r st]
  consider "stats st' = stats st"
    | "stats st' = count_outcome ?line outcome ((stats st)\<lparr>total := total (stats st) + 1\<rparr>)"
    unfolding st' assms(3,4,5) by blast
  then show ?thesis
  proof cases
    case 1
    then show ?thesis by simp
  next
    case 2
    have line: "?line @ msg = ''Ligne '' @ nat_to_string (length pre + 1) @ '' ('' @ js_String prenom @ '' ''
                   @ js_String nom @ ''): '' @ msg" for msg
      by (simp add: worker_error_line_def)
    from count_outcome_cases [of outcome ?line "stats st"] 2 show ?thesis
      unfolding line by metis
  qed
qed

lemma product_row_outcome:
  assumes "st = product_loop env 0 pre (product_init s)"
    "st' = product_loop env 0 (pre @ [r]) (product_init s)"
    "nom = cell_at r (pc_nom (colMap st))"
    "outcome = fst (bind_call (handle_category env (colMap st) r (build_productData (colMap st) r nom))
                      (upsert_product env) (db st))"
  shows "stats st' = stats st
     \<or> (outcome = Inr Created
         \<and> stats st' = (stats st)\<lparr>total := total (stats st) + 1, created := created (stats st) + 1\<rparr>)
     \<or> (outcome = Inr Updated
         \<and> stats st' = (stats st)\<lparr>total := total (stats st) + 1, updated := updated (stats st) + 1\<rparr>)
     \<or> (\<exists>msg. outcome = Inl msg
         \<and> stats st' = (stats st)\<lparr>total := total (stats st) + 1,
              errors := errors (stats st) @
                [''Ligne '' @ nat_to_string (length pre + 1) @ '' ('' @ js_String nom @ ''): '' @ msg]\<rparr>)"
proof -
  have st': "st' = product_iter env (length pre) r st"
    using assms(1,2) by (simp add: product_loop_append)
  let ?line = "product_error_line (length pre) nom"
  from product_iter_stats_step [of env "length pre" r st]
  consider "stats st' = stats st"
    | "stats st' = count_outcome ?line outcome ((stats st)\<lparr>total := total (stats st) + 1\<rparr>)"
    unfolding st' assms(3,4) by blast
  then show ?thesis
  proof cases
    case 1
    then show ?thesis by simp
  next
    case 2
    have line: "?line @ msg = ''Ligne '' @ nat_to_string (length pre + 1) @ '' ('' @ js_String nom @ ''): '' @ msg" for msg
      by (simp add: product_error_line_def)
    from count_outcome_cases [of outcome ?line "stats st"] 2 show ?thesis
      unfolding line by metis
  qed
qed

lemma worker_errors_kept:
  "prefix (errors (stats (worker_loop env 0 pre (worker_init s))))
     (errors (fst (importWorkersFromExcel env (pre @ post) s)))"
  by (simp add: importWorkersFromExcel_def Let_def worker_loop_append worker_loop_errors_grow)

lemma product_errors_kept:
  "prefix (errors (stats (product_loop env 0 pre (product_init s))))
     (errors (fst (importProductsFromExcel env (pre @ post) s)))"
  by (simp add: importProductsFromExcel_def Let_def product_loop_append product_loop_errors_grow)

text \<open>
  C5. For every grid and every behaviour of the store, the statistics returned by
  \<open>importWorkersFromExcel\<close> and by \<open>importProductsFromExcel\<close> satisfy
  \<open>errors.length + created + updated \<le> total\<close>, and every string of \<open>errors\<close> starts
  with \<^verbatim>\<open>Ligne N (\<close> where \<open>N\<close> is the 1-based number of a row of the sheet. Row by
  row: let \<open>r\<close> be the row at index \<open>length pre\<close>, after the rows \<open>pre\<close>. Processing \<open>r\<close>
  leaves the statistics as they are, or counts the row in \<open>total\<close> and in exactly one
  of the three outcomes, which is the outcome of the store calls made for this row:
  \<open>created\<close> when they end in a creation, \<open>updated\<close> when they end in an update, and
  when they throw, one message appended to \<open>errors\<close>, made of \<^verbatim>\<open>Ligne\<close>, the number
  \<open>length pre + 1\<close> of this very row, the name cells of the row in parentheses and the
  message thrown. The messages recorded up to a row stay, in order, at the head of the
  list that is returned.
\<close>

theorem import_statistics:
  "length (errors (fst (importWorkersFromExcel env data s)))
     + created (fst (importWorkersFromExcel env data s))
     + updated (fst (importWorkersFromExcel env data s))
     \<le> total (fst (importWorkersFromExcel env data s))
   \<and> list_all (\<lambda>e. \<exists>i<length data. prefix (''Ligne '' @ nat_to_string (i + 1) @ '' ('') e)
        (errors (fst (importWorkersFromExcel env data s)))
   \<and> length (errors (fst (importProductsFromExcel env data s)))
     + created (fst (importProductsFromExcel env data s))
     + updated (fst (importProductsFromExcel env data s))
     \<le> total (fst (importProductsFromExcel env data s))
   \<and> list_all (\<lambda>e. \<exists>i<length data. prefix (''Ligne '' @ nat_to_string (i + 1) @ '' ('') e)
        (errors (fst (importProductsFromExcel env data s)))
   \<and> (st = worker_loop env 0 pre (worker_init s)
      \<and> st' = worker_loop env 0 (pre @ [r]) (worker_init s)
      \<and> prenom = cell_at r (cm_prenom (colMap st)) \<and> nom = cell_at r (cm_nom (colMap st))
      \<and> outcome = fst (upsert_worker env
                         (build_workerData (date_parse env) (clock env (length pre)) (colMap st)
                            (currentSite st) r prenom nom) (db st))
      \<longrightarrow> stats st' = stats st
          \<or> (outcome = Inr Created
              \<and> stats st' = (stats st)\<lparr>total := total (stats st) + 1,
                                        created := created (stats st) + 1\<rparr>)
          \<or> (outcome = Inr Updated
              \<and> stats st' = (stats st)\<lparr>total := total (stats st) + 1,
                                        updated := updated (stats st) + 1\<rparr>)
          \<or> (\<exists>msg. outcome = Inl msg
              \<and> stats st' = (stats st)\<lparr>total := total (stats st) + 1,
                   errors := errors (stats st) @
                     [''Ligne '' @ nat_to_string (length pre + 1) @ '' ('' @ js_String prenom
                        @ '' '' @ js_String nom @ ''): '' @ msg]\<rparr>))
   \<and> prefix (errors (stats (worker_loop env 0 pre (worker_init s))))
        (errors (fst (importWorkersFromExcel env (pre @ post) s)))
   \<and> (pst = product_loop env 0 ppre (product_init s)
      \<and> pst' = product_loop env 0 (ppre @ [pr]) (product_init s)
      \<and> pnom = cell_at pr (pc_nom (colMap pst))
      \<and> poutcome = fst (bind_call (handle_category env (colMap pst) pr
                                     (build_productData (colMap pst) pr pnom))
                          (upsert_product env) (db pst))
      \<longrightarrow> stats pst' = stats pst
          \<or> (poutcome = Inr Created
              \<and> stats pst' = (stats pst)\<lparr>total := total (stats pst) + 1,
                                          created := created (stats pst) + 1\<rparr>)
          \<or> (poutcome = Inr Updated
              \<and> stats pst' = (stats pst)\<lparr>total := total (stats pst) + 1,
                                          updated := updated (stats pst) + 1\<rparr>)
          \<or> (\<exists>msg. poutcome = Inl msg
              \<and> stats pst' = (stats pst)\<lparr>total := total (stats pst) + 1,
                   errors := errors (stats pst) @
                     [''Ligne '' @ nat_to_string (length ppre + 1) @ '' ('' @ js_String pnom
                        @ ''): '' @ msg]\<rparr>))
   \<and> prefix (errors (stats (product_loop env 0 ppre (product_init s))))
        (errors (fst (importProductsFromExcel env (ppre @ ppost) s)))"
proof -
  have totals: "length (errors (fst (importWorkersFromExcel env data s)))
     + created (fst (importWorkersFromExcel env data s))
     + updated (fst (importWorkersFromExcel env data s))
     \<le> total (fst (importWorkersFromExcel env data s))
   \<and> list_all (\<lambda>e. \<exists>i<length data. prefix (''Ligne '' @ nat_to_string (i + 1) @ '' ('') e)
        (errors (fst (importWorkersFromExcel env data s)))
   \<and> length (errors (fst (importProductsFromExcel env data s)))
     + created (fst (importProductsFromExcel env data s))
     + updated (fst (importProductsFromExcel env data s))
     \<le> total (fst (importProductsFromExcel env data s))
   \<and> list_all (\<lambda>e. \<exists>i<length data. prefix (''Ligne '' @ nat_to_string (i + 1) @ '' ('') e)
        (errors (fst (importProductsFromExcel env data s)))"
    using worker_stats_ok [of data env s] product_stats_ok [of data env s]
    by (simp add: stats_ok_def line_prefix_def)
  note w = worker_row_outcome [of st env pre s st' r prenom nom outcome]
  note p = product_row_outcome [of pst env ppre s pst' pr pnom poutcome]
  note wk = worker_errors_kept [of env pre s post]
  note pk = product_errors_kept [of env ppre s ppost]
  from totals w p wk pk show ?thesis by blast
qed

text \<open>The theorem at the second line of two sheets: a worker line that the store refuses,
  whose message names line 2, and a product line that the store accepts.\<close>

theorem import_statistics_witness:
  "stats (worker_loop refusing_env 0 ([staff_header] @ [awa_row]) (worker_init empty_store))
     = \<lparr>total = 1, created = 0, updated = 0, errors = [''Ligne 2 (Awa Diop): Validation error'']\<rparr>
   \<and> stats (product_loop mem_env 0 ([product_header] @ [savon_row]) (product_init empty_store))
     = \<lparr>total = 1, created = 1, updated = 0, errors = []\<rparr>"
proof -
  let ?st = "worker_loop refusing_env 0 [staff_header] (worker_init empty_store)"
  let ?st' = "worker_loop refusing_env 0 ([staff_header] @ [awa_row]) (worker_init empty_store)"
  let ?prenom = "cell_at awa_row (cm_prenom (colMap ?st))"
  let ?nom = "cell_at awa_row (cm_nom (colMap ?st))"
  let ?outcome = "fst (upsert_worker refusing_env
                         (build_workerData (date_parse refusing_env)
                            (clock refusing_env (length [staff_header])) (colMap ?st)
                            (currentSite ?st) awa_row ?prenom ?nom) (db ?st))"
  let ?pst = "product_loop mem_env 0 [product_header] (product_init empty_store)"
  let ?pst' = "product_loop mem_env 0 ([product_header] @ [savon_row]) (product_init empty_store)"
  let ?pnom = "cell_at savon_row (pc_nom (colMap ?pst))"
  let ?poutcome = "fst (bind_call (handle_category mem_env (colMap ?pst) savon_row
                                     (build_productData (colMap ?pst) savon_row ?pnom))
                          (upsert_product mem_env) (db ?pst))"
  have a: "stats ?st = \<lparr>total = 0, created = 0, updated = 0, errors = []\<rparr>" by code_simp
  have b: "?outcome = Inl ''Validation error''" by code_simp
  have c: "total (stats ?st') = 1" by code_simp
  have d: "''Ligne '' @ nat_to_string (length [staff_header] + 1) @ '' ('' @ js_String ?prenom
             @ '' '' @ js_String ?nom @ ''): '' @ ''Validation error''
           = ''Ligne 2 (Awa Diop): Validation error''" by code_simp
  have pa: "stats ?pst = \<lparr>total = 0, created = 0, updated = 0, errors = []\<rparr>" by code_simp
  have pb: "?poutcome = Inr Created" by code_simp
  have pc: "total (stats ?pst') = 1" by code_simp
  from import_statistics [where env = refusing_env and s = empty_store and pre = "[staff_header]"
      and r = awa_row and st = ?st and st' = ?st' and prenom = ?prenom and nom = ?nom
      and outcome = ?outcome]
  have "stats ?st' = stats ?st
          \<or> (?outcome = Inr Created
              \<and> stats ?st' = (stats ?st)\<lparr>total := total (stats ?st) + 1,
                                        created := created (stats ?st) + 1\<rparr>)
          \<or> (?outcome = Inr Updated
              \<and> stats ?st' = (stats ?st)\<lparr>total := total (stats ?st) + 1,
                                        updated := updated (stats ?st) + 1\<rparr>)
          \<or> (\<exists>msg. ?outcome = Inl msg
              \<and> stats ?st' = (stats ?st)\<lparr>total := total (stats ?st) + 1,
                   errors := errors (stats ?st) @
                     [''Ligne '' @ nat_to_string (length [staff_header] + 1) @ '' ('' @ js_String ?prenom
                        @ '' '' @ js_String ?nom @ ''): '' @ msg]\<rparr>)"
    by blast
  then have w: "stats ?st' = \<lparr>total = 1, created = 0, updated = 0,
                   errors = [''Ligne 2 (Awa Diop): Validation error'']\<rparr>"
    unfolding b using c d unfolding a by auto
  from import_statistics [where env = mem_env and s = empty_store and ppre = "[product_header]"
      and pr = savon_row and pst = ?pst and pst' = ?pst' and pnom = ?pnom and poutcome = ?poutcome]
  have "stats ?pst' = stats ?pst
          \<or> (?poutcome = Inr Created
              \<and> stats ?pst' = (stats ?pst)\<lparr>total := total (stats ?pst) + 1,
                                          created := created (stats ?pst) + 1\<rparr>)
          \<or> (?poutcome = Inr Updated
              \<and> stats ?pst' = (stats ?pst)\<lparr>total := total (stats ?pst) + 1,
                                          updated := updated (stats ?pst) + 1\<rparr>)
          \<or> (\<exists>msg. ?poutcome = Inl msg
              \<and> stats ?pst' = (stats ?pst)\<lparr>total := total (stats ?pst) + 1,
                   errors := errors (stats ?pst) @
                     [''Ligne '' @ nat_to_string (length [product_header] + 1) @ '' ('' @ js_String ?pnom
                        @ ''): '' @ msg]\<rparr>)"
    by blast
  then have p: "stats ?pst' = \<lparr>total = 1, created = 1, updated = 0, errors = []\<rparr>"
    unfolding pb using pc unfolding pa by auto
  from w p show ?thesis by simp
qed

text \<open>A run with a failing row: the worker on the second line of the sheet is refused by
  the store, the row is counted and its message names line 2.\<close>

lemma refused_row_message:
  "importWorkersFromExcel refusing_env [staff_header, [CStr ''Awa'', CStr ''Diop'', CStr ''SN-12345'']]
     empty_store
   = (\<lparr>total = 1, created = 0, updated = 0, errors = [''Ligne 2 (Awa Diop): Validation error'']\<rparr>,
      empty_store)"
  by code_simp

section \<open>Site lines and skipped rows\<close>

lemma potentialSite_single: "nonEmptyCells r = [CStr c] \<Longrightarrow> potentialSite r = trim c"
  by (simp add: potentialSite_def)

lemma worker_iter_single_cell:
  assumes "nonEmptyCells r = [CStr c]" "length (trim c) > 3"
  shows "stats (worker_iter env i r st) = stats st \<and> db (worker_iter env i r st) = db st"
  using assms by (simp add: worker_iter_def Let_def potentialSite_single)

lemma worker_iter_banner:
  assumes "nonEmptyCells r = [CStr c]" "length (trim c) > 3"
    "\<not> arr_includes (rowStr_of r) ''PRENOMS''" "\<not> str_includes (trim c) ''TECHNICIENS DE SURFACE''"
  shows "worker_iter env i r st = st\<lparr>currentSite := trim c\<rparr>"
  using assms by (simp add: worker_iter_def Let_def potentialSite_single is_site_banner_def)

text \<open>The record a counted row hands to the store is attributed to the current site.\<close>

lemma workerData_site:
  "w_site_affectation (build_workerData parse today cm site r prenom nom) = site"
  by (simp add: build_workerData_def)

text \<open>A row that has not exactly one non-empty cell leaves the current site alone.\<close>

lemma worker_iter_keeps_site:
  "length (nonEmptyCells r) \<noteq> 1 \<Longrightarrow> currentSite (worker_iter env i r st) = currentSite st"
  by (simp add: worker_iter_def Let_def is_site_banner_def split: prod.splits)

lemma worker_loop_keeps_site:
  "list_all (\<lambda>x. length (nonEmptyCells x) \<noteq> 1) rows \<Longrightarrow>
     currentSite (worker_loop env i rows st) = currentSite st"
  by (induction rows arbitrary: i st) (simp_all add: worker_iter_keeps_site)

text \<open>An iteration that moves \<open>total\<close> is the data branch: the record is built with the
  current site and given to \<open>upsert_worker\<close>.\<close>

lemma worker_iter_total_moves:
  assumes "total (stats (worker_iter env i r st)) \<noteq> total (stats st)"
  shows "worker_iter env i r st =
     st\<lparr>stats := count_outcome
                  (worker_error_line i (cell_at r (cm_prenom (colMap st))) (cell_at r (cm_nom (colMap st))))
                  (fst (upsert_worker env
                         (build_workerData (date_parse env) (clock env i) (colMap st) (currentSite st) r
                            (cell_at r (cm_prenom (colMap st))) (cell_at r (cm_nom (colMap st))))
                         (db st)))
                  ((stats st)\<lparr>total := total (stats st) + 1\<rparr>),
        db := snd (upsert_worker env
                     (build_workerData (date_parse env) (clock env i) (colMap st) (currentSite st) r
                        (cell_at r (cm_prenom (colMap st))) (cell_at r (cm_nom (colMap st))))
                     (db st))\<rparr>"
  using assms
  by (auto simp: worker_iter_def Let_def split: prod.splits if_splits)

text \<open>
  C8 (as amended). Take a row \<open>r\<close> with exactly one non-empty cell, a string whose trimmed
  value \<open>trim c\<close> is longer than 3, at any place of the grid (in particular after a
  header). The worker import never processes it as worker data: the statistics and the
  store after the row are those before it. If moreover the cell is not \<^verbatim>\<open>PRENOMS\<close> (in
  any letter case) and does not contain \<^verbatim>\<open>TECHNICIENS DE SURFACE\<close>, the row is a site
  switch: the rest of the grid is processed from the state before the row with
  \<open>currentSite\<close> set to \<open>trim c\<close>, and the worker rows that follow are attributed to it.
  That is: let rows \<open>mid\<close> follow \<open>r\<close>, none of them with exactly one non-empty cell, and
  then a row \<open>r'\<close> that the import counts (\<open>total\<close> moves). Then the current site before
  \<open>r'\<close> is \<open>trim c\<close>, and the loop hands to the store, for \<open>r'\<close>, the record built from
  \<open>r'\<close> with \<open>site_affectation = trim c\<close>: the state after \<open>r'\<close> is the state before it
  with the outcome of \<open>upsert_worker\<close> on that record counted, and with the store that
  this call leaves.
\<close>

theorem site_banner_row:
  assumes "nonEmptyCells r = [CStr c]" "length (trim c) > 3"
  shows "stats (worker_loop env 0 (pre @ [r]) (worker_init s)) = stats (worker_loop env 0 pre (worker_init s))
    \<and> db (worker_loop env 0 (pre @ [r]) (worker_init s)) = db (worker_loop env 0 pre (worker_init s))
    \<and> (\<not> arr_includes (rowStr_of r) ''PRENOMS'' \<and> \<not> str_includes (trim c) ''TECHNICIENS DE SURFACE''
        \<longrightarrow> worker_loop env 0 (pre @ r # post) (worker_init s) =
            worker_loop env (length pre + 1) post
              ((worker_loop env 0 pre (worker_init s))\<lparr>currentSite := trim c\<rparr>)
          \<and> (list_all (\<lambda>x. length (nonEmptyCells x) \<noteq> 1) mid
             \<and> st = worker_loop env 0 (pre @ r # mid) (worker_init s)
             \<and> st' = worker_loop env 0 (pre @ r # mid @ [r']) (worker_init s)
             \<and> total (stats st') \<noteq> total (stats st)
             \<and> i = length pre + 1 + length mid
             \<and> prenom = cell_at r' (cm_prenom (colMap st)) \<and> nom = cell_at r' (cm_nom (colMap st))
             \<and> workerData = build_workerData (date_parse env) (clock env i) (colMap st) (trim c)
                               r' prenom nom
            \<longrightarrow> currentSite st = trim c
                \<and> w_site_affectation workerData = trim c
                \<and> st' = st\<lparr>stats := count_outcome (worker_error_line i prenom nom)
                                      (fst (upsert_worker env workerData (db st)))
                                      ((stats st)\<lparr>total := total (stats st) + 1\<rparr>),
                           db := snd (upsert_worker env workerData (db st))\<rparr>))"
proof -
  let ?st0 = "worker_loop env 0 pre (worker_init s)"
  have first: "stats (worker_loop env 0 (pre @ [r]) (worker_init s)) = stats ?st0
      \<and> db (worker_loop env 0 (pre @ [r]) (worker_init s)) = db ?st0"
    using assms by (simp add: worker_loop_append worker_iter_single_cell)
  have rest: "worker_loop env 0 (pre @ r # post) (worker_init s) =
            worker_loop env (length pre + 1) post (?st0\<lparr>currentSite := trim c\<rparr>)
          \<and> (list_all (\<lambda>x. length (nonEmptyCells x) \<noteq> 1) mid
             \<and> st = worker_loop env 0 (pre @ r # mid) (worker_init s)
             \<and> st' = worker_loop env 0 (pre @ r # mid @ [r']) (worker_init s)
             \<and> total (stats st') \<noteq> total (stats st)
             \<and> i = length pre + 1 + length mid
             \<and> prenom = cell_at r' (cm_prenom (colMap st)) \<and> nom = cell_at r' (cm_nom (colMap st))
             \<and> workerData = build_workerData (date_parse env) (clock env i) (colMap st) (trim c)
                               r' prenom nom
            \<longrightarrow> currentSite st = trim c
                \<and> w_site_affectation workerData = trim c
                \<and> st' = st\<lparr>stats := count_outcome (worker_error_line i prenom nom)
                                      (fst (upsert_worker env workerData (db st)))
                                      ((stats st)\<lparr>total := total (stats st) + 1\<rparr>),
                           db := snd (upsert_worker env workerData (db st))\<rparr>)"
    if guards: "\<not> arr_includes (rowStr_of r) ''PRENOMS''"
      "\<not> str_includes (trim c) ''TECHNICIENS DE SURFACE''"
  proof (intro conjI impI)
    have switch: "worker_loop env 0 (pre @ r # rows) (worker_init s) =
        worker_loop env (length pre + 1) rows (?st0\<lparr>currentSite := trim c\<rparr>)" for rows
      using assms guards by (simp add: worker_loop_append worker_iter_banner)
    show "worker_loop env 0 (pre @ r # post) (worker_init s) =
            worker_loop env (length pre + 1) post (?st0\<lparr>currentSite := trim c\<rparr>)"
      by (rule switch)
    assume h: "list_all (\<lambda>x. length (nonEmptyCells x) \<noteq> 1) mid
             \<and> st = worker_loop env 0 (pre @ r # mid) (worker_init s)
             \<and> st' = worker_loop env 0 (pre @ r # mid @ [r']) (worker_init s)
             \<and> total (stats st') \<noteq> total (stats st)
             \<and> i = length pre + 1 + length mid
             \<and> prenom = cell_at r' (cm_prenom (colMap st)) \<and> nom = cell_at r' (cm_nom (colMap st))
             \<and> workerData = build_workerData (date_parse env) (clock env i) (colMap st) (trim c)
                               r' prenom nom"
    from h have mid: "list_all (\<lambda>x. length (nonEmptyCells x) \<noteq> 1) mid"
      and st_def: "st = worker_loop env 0 (pre @ r # mid) (worker_init s)"
      and st'_def: "st' = worker_loop env 0 (pre @ r # mid @ [r']) (worker_init s)"
      and moved: "total (stats st') \<noteq> total (stats st)"
      and i_def: "i = length pre + 1 + length mid"
      and cells: "prenom = cell_at r' (cm_prenom (colMap st))" "nom = cell_at r' (cm_nom (colMap st))"
      and wd: "workerData = build_workerData (date_parse env) (clock env i) (colMap st) (trim c)
                               r' prenom nom"
      by blast+
    have st: "st = worker_loop env (length pre + 1) mid (?st0\<lparr>currentSite := trim c\<rparr>)"
      unfolding st_def by (rule switch)
    have "st' = worker_loop env (length pre + 1) (mid @ [r']) (?st0\<lparr>currentSite := trim c\<rparr>)"
      unfolding st'_def by (rule switch)
    then have st': "st' = worker_iter env i r' st"
      unfolding st i_def by (simp add: worker_loop_append)
    show site: "currentSite st = trim c"
      unfolding st using mid by (simp add: worker_loop_keeps_site)
    show "w_site_affectation workerData = trim c"
      unfolding wd by (rule workerData_site)
    from moved have "total (stats (worker_iter env i r' st)) \<noteq> total (stats st)"
      unfolding st' .
    from worker_iter_total_moves [OF this]
    show "st' = st\<lparr>stats := count_outcome (worker_error_line i prenom nom)
                                      (fst (upsert_worker env workerData (db st)))
                                      ((stats st)\<lparr>total := total (stats st) + 1\<rparr>),
                           db := snd (upsert_worker env workerData (db st))\<rparr>"
      unfolding st' wd cells site .
  qed
  from first rest show ?thesis by blast
qed

text \<open>The theorem on a sheet with two workers under the site line: header, site line,
  \<open>awa_row\<close>, \<open>moussa_row\<close>. Both workers are stored with the site of the line.\<close>

theorem site_banner_row_witness:
  "map w_site_affectation
     (workers (db (worker_loop mem_env 0 ([staff_header] @ site_row # [awa_row] @ [moussa_row])
                     (worker_init empty_store))))
   = [''SITE DAKAR'', ''SITE DAKAR'']
   \<and> map w_nom
     (workers (db (worker_loop mem_env 0 ([staff_header] @ site_row # [awa_row] @ [moussa_row])
                     (worker_init empty_store))))
   = [''Diop'', ''Fall'']"
proof -
  let ?st = "worker_loop mem_env 0 ([staff_header] @ site_row # [awa_row]) (worker_init empty_store)"
  let ?st' = "worker_loop mem_env 0 ([staff_header] @ site_row # [awa_row] @ [moussa_row])
                (worker_init empty_store)"
  let ?prenom = "cell_at moussa_row (cm_prenom (colMap ?st))"
  let ?nom = "cell_at moussa_row (cm_nom (colMap ?st))"
  let ?wd = "build_workerData (date_parse mem_env) (clock mem_env 3) (colMap ?st)
               (trim ''SITE DAKAR'') moussa_row ?prenom ?nom"
  have h1: "nonEmptyCells site_row = [CStr ''SITE DAKAR'']" by code_simp
  have h2: "length (trim ''SITE DAKAR'') > 3" by code_simp
  have h3: "\<not> arr_includes (rowStr_of site_row) ''PRENOMS''" by code_simp
  have h4: "\<not> str_includes (trim ''SITE DAKAR'') ''TECHNICIENS DE SURFACE''" by code_simp
  have h5: "list_all (\<lambda>x. length (nonEmptyCells x) \<noteq> 1) [awa_row]" by code_simp
  have h6: "total (stats ?st') \<noteq> total (stats ?st)" by code_simp
  have h7: "(3::nat) = length [staff_header] + 1 + length [awa_row]" by simp
  from site_banner_row [OF h1 h2, where env = mem_env and pre = "[staff_header]"
      and s = empty_store and mid = "[awa_row]" and r' = moussa_row and st = ?st and st' = ?st'
      and i = 3 and prenom = ?prenom and nom = ?nom and workerData = ?wd] h3 h4 h5 h6 h7
  have step: "?st' = ?st\<lparr>stats := count_outcome (worker_error_line 3 ?prenom ?nom)
                                      (fst (upsert_worker mem_env ?wd (db ?st)))
                                      ((stats ?st)\<lparr>total := total (stats ?st) + 1\<rparr>),
                           db := snd (upsert_worker mem_env ?wd (db ?st))\<rparr>"
    by blast
  have e1: "map w_site_affectation (workers (snd (upsert_worker mem_env ?wd (db ?st))))
              = [''SITE DAKAR'', ''SITE DAKAR'']" by code_simp
  have e2: "map w_nom (workers (snd (upsert_worker mem_env ?wd (db ?st)))) = [''Diop'', ''Fall'']"
    by code_simp
  have "db ?st' = snd (upsert_worker mem_env ?wd (db ?st))"
    by (subst step) simp
  with e1 e2 show ?thesis by simp
qed

text \<open>
  The claim as stated has no exception, and fails at one: after the header, the line
  \<open>technicians_row\<close> has one non-empty cell, longer than 3, and the current site stays
  the default \<^verbatim>\<open>SIEGE\<close>.
\<close>

theorem technicians_row_is_no_site_switch:
  "nonEmptyCells technicians_row = [CStr ''LES TECHNICIENS DE SURFACE DE DAKAR'']
   \<and> length (trim ''LES TECHNICIENS DE SURFACE DE DAKAR'') > 3
   \<and> currentSite (worker_loop mem_env 0 [staff_header, technicians_row] (worker_init empty_store))
       = ''SIEGE''"
  by code_simp

lemma worker_iter_skip:
  assumes "\<not> is_site_banner r" "\<not> is_worker_header (rowStr_of r)"
    "\<not> truthy (cell_at r (cm_prenom (colMap st))) \<or> \<not> truthy (cell_at r (cm_nom (colMap st)))"
  shows "worker_iter env i r st = st"
  using assms by (auto simp: worker_iter_def Let_def)

lemma product_iter_skip:
  assumes "\<not> is_product_header (rowStr_of r)" "\<not> truthy (cell_at r (pc_nom (colMap st)))"
  shows "product_iter env i r st = st"
  using assms by (auto simp: product_iter_def Let_def)

text \<open>
  C9. A row that is neither a site banner nor a header and whose required cell is empty
  (first name or surname for workers, product name for products; empty as the source
  tests it, \<^verbatim>\<open>!cell\<close>: the empty string, a missing cell, zero or false) is skipped
  silently: the whole state of the loop after the row, with the store, the error list and
  the total, is the state before it.
\<close>

theorem missing_required_cell_skipped:
  "(\<not> is_site_banner r \<and> \<not> is_worker_header (rowStr_of r)
      \<and> (\<not> truthy (cell_at r (cm_prenom (colMap (worker_loop env 0 pre (worker_init s)))))
         \<or> \<not> truthy (cell_at r (cm_nom (colMap (worker_loop env 0 pre (worker_init s))))))
     \<longrightarrow> worker_loop env 0 (pre @ [r]) (worker_init s) = worker_loop env 0 pre (worker_init s))
   \<and> (\<not> is_product_header (rowStr_of pr)
      \<and> \<not> truthy (cell_at pr (pc_nom (colMap (product_loop env 0 ppre (product_init s)))))
     \<longrightarrow> product_loop env 0 (ppre @ [pr]) (product_init s) = product_loop env 0 ppre (product_init s))"
  by (simp add: worker_loop_append product_loop_append worker_iter_skip product_iter_skip)

text \<open>The theorem at a worker line without first name and a product line without name,
  each right after its header.\<close>

theorem missing_required_cell_skipped_witness:
  "worker_loop mem_env 0 ([staff_header] @ [[CStr [], CStr ''Diop'', CStr ''SN-12345'']])
       (worker_init empty_store)
     = worker_loop mem_env 0 [staff_header] (worker_init empty_store)
   \<and> product_loop mem_env 0 ([product_header] @ [[CStr ''P009'', CStr [], CStr ''Hygiene'']])
       (product_init empty_store)
     = product_loop mem_env 0 [product_header] (product_init empty_store)"
proof -
  let ?r = "[CStr [], CStr ''Diop'', CStr ''SN-12345'']"
  let ?pr = "[CStr ''P009'', CStr [], CStr ''Hygiene'']"
  have h1: "\<not> is_site_banner ?r" by code_simp
  have h2: "\<not> is_worker_header (rowStr_of ?r)" by code_simp
  have h3: "\<not> truthy (cell_at ?r (cm_prenom (colMap (worker_loop mem_env 0 [staff_header]
                (worker_init empty_store)))))" by code_simp
  have h4: "\<not> is_product_header (rowStr_of ?pr)" by code_simp
  have h5: "\<not> truthy (cell_at ?pr (pc_nom (colMap (product_loop mem_env 0 [product_header]
                (product_init empty_store)))))" by code_simp
  from missing_required_cell_skipped [where r = ?r and pr = ?pr and env = mem_env
      and pre = "[staff_header]" and ppre = "[product_header]" and s = empty_store]
    h1 h2 h3 h4 h5
  show ?thesis by blast
qed

section \<open>Date serials\<close>

text \<open>
  C4 (as amended). \<open>parseExcelDate\<close> subtracts 25569 days from a numeric serial and
  turns the remaining day count into milliseconds since the Unix epoch. The serial 44197
  is therefore the date 2021-01-01, and the serial 25569 is the epoch itself, the date
  1970-01-01; the in-line conversion of the controller gives the same two dates.
\<close>

theorem parseExcelDate_serials:
  "parseExcelDate parse (CNum 25569) = Some (DateMs (utc_ms 1970 1 1))
   \<and> parseExcelDate parse (CNum 44197) = Some (DateMs (utc_ms 2021 1 1))
   \<and> controller_date parse (CNum 25569) = Some (DateMs (utc_ms 1970 1 1))
   \<and> controller_date parse (CNum 44197) = Some (DateMs (utc_ms 2021 1 1))
   \<and> parseExcelDate parse (CNum n) =
       (if n = 0 then None else Some (new_Date_ms ((n - 25569) * 86400 * 1000)))"
proof -
  have "parseExcelDate parse (CNum n) =
       (if n = 0 then None else Some (new_Date_ms ((n - 25569) * 86400 * 1000)))"
    by (simp add: parseExcelDate_def)
  then show ?thesis
    by (simp add: parseExcelDate_def controller_date_def new_Date_ms_def utc_ms_def DayFromYear_def)
qed

text \<open>The serial 25569 is not the date 1900-01-01.\<close>

theorem parseExcelDate_25569_not_1900:
  "parseExcelDate date_only_parse (CNum 25569) \<noteq> Some (DateMs (utc_ms 1900 1 1))"
  by (simp add: parseExcelDate_def new_Date_ms_def utc_ms_def DayFromYear_def)

text \<open>
  C7. \<open>parseExcelDate\<close> should return a valid date or \<^verbatim>\<open>null\<close>. It does not: a text with
  three slash-separated parts is recombined and handed to \<^verbatim>\<open>new Date\<close>, and whatever that
  yields is returned without the \<^verbatim>\<open>isNaN\<close> test of the last line, so the text
  \<^verbatim>\<open>xx/yy/zz\<close> comes back as an Invalid Date; so does a numeric cell more than
  100,000,000 days away from the epoch.
\<close>

theorem parseExcelDate_returns_invalid_date:
  "parseExcelDate parse (CStr ''xx/yy/zz'') = Some (parse ''zz-yy-xx'')
   \<and> parseExcelDate date_only_parse (CStr ''xx/yy/zz'') = Some InvalidDate
   \<and> parseExcelDate parse (CNum 200000000) = Some InvalidDate"
  by (simp add: parseExcelDate_def new_Date_ms_def date_only_parse_def)

text \<open>The last line of the function does what the claim says: a text without three parts
  that the engine does not recognise gives \<^verbatim>\<open>null\<close>.\<close>

lemma parseExcelDate_unrecognised_text:
  "parseExcelDate date_only_parse (CStr ''demain'') = None"
  by (simp add: parseExcelDate_def date_only_parse_def)

section \<open>The in-memory store, call by call\<close>

lemma mem_env_simps [simp]:
  "date_parse mem_env = date_only_parse"
  "clock mem_env = (\<lambda>i. DateMs 0)"
  "Worker_findOne mem_env = (\<lambda>P s. (Inr (find_from 0 P (workers s)), s))"
  "Worker_create mem_env = (\<lambda>w s. (Inr (), s\<lparr>workers := workers s @ [w]\<rparr>))"
  "Worker_update mem_env = (\<lambda>k f s. (Inr (), s\<lparr>workers := update_at k f (workers s)\<rparr>))"
  "Product_findOne mem_env = (\<lambda>P s. (Inr (find_from 0 P (products s)), s))"
  "Product_create mem_env = (\<lambda>p s. (Inr (), s\<lparr>products := products s @ [p]\<rparr>))"
  "Product_update mem_env = (\<lambda>k f s. (Inr (), s\<lparr>products := update_at k f (products s)\<rparr>))"
  "Category_findOne mem_env = (\<lambda>P s. (Inr (find_from 0 P (categories s)), s))"
  "Category_create mem_env = (\<lambda>c s. (Inr (length (categories s)), s\<lparr>categories := categories s @ [c]\<rparr>))"
  by (simp_all add: mem_env_def)

lemma blind_env_simps [simp]:
  "date_parse blind_env = date_only_parse"
  "clock blind_env = (\<lambda>i. DateMs 0)"
  "Worker_findOne blind_env = (\<lambda>P s. (Inr None, s))"
  "Worker_create blind_env = (\<lambda>w s. (Inr (), s\<lparr>workers := workers s @ [w]\<rparr>))"
  "Product_findOne blind_env = (\<lambda>P s. (Inr None, s))"
  "Product_create blind_env = (\<lambda>p s. (Inr (), s\<lparr>products := products s @ [p]\<rparr>))"
  "Category_findOne blind_env = (\<lambda>P s. (Inr (find_from 0 P (categories s)), s))"
  "Category_create blind_env = (\<lambda>c s. (Inr (length (categories s)), s\<lparr>categories := categories s @ [c]\<rparr>))"
  by (simp_all add: blind_env_def)

lemma find_from_None_iff: "find_from k P xs = None \<longleftrightarrow> (\<forall>x\<in>set xs. \<not> P x)"
  by (induction xs arbitrary: k) auto

lemma find_from_Some:
  "find_from k P xs = Some (j, x) \<Longrightarrow> k \<le> j \<and> j - k < length xs \<and> xs ! (j - k) = x \<and> P x"
proof (induction xs arbitrary: k)
  case Nil
  then show ?case by simp
next
  case (Cons a xs)
  show ?case
  proof (cases "P a")
    case True
    with Cons.prems show ?thesis by auto
  next
    case False
    with Cons.prems have "find_from (Suc k) P xs = Some (j, x)" by simp
    from Cons.IH [OF this] show ?thesis by (auto simp: Suc_diff_le)
  qed
qed

lemma find_from_0_Some:
  "find_from 0 P xs = Some (j, x) \<Longrightarrow> j < length xs \<and> xs ! j = x \<and> P x"
  using find_from_Some [of 0 P xs j x] by simp

lemma map_update_at_inv:
  assumes "\<And>x. g (f x) = g x"
  shows "map g (update_at k f xs) = map g xs"
proof (cases "k < length xs")
  case True
  have "map g (xs[k := f (xs ! k)]) = (map g xs)[k := map g xs ! k]"
    using True by (simp add: map_update assms)
  also have "\<dots> = map g xs" by (rule list_update_id)
  finally show ?thesis using True by (simp add: update_at_def)
next
  case False
  then show ?thesis by (simp add: update_at_def)
qed

lemma upsert_worker_mem:
  "upsert_worker mem_env wd s =
     (case mem_find_worker wd (workers s) of
        Some (k, found) \<Rightarrow>
          (Inr Updated, s\<lparr>workers := update_at k (worker_update_fields wd found) (workers s)\<rparr>)
      | None \<Rightarrow> (Inr Created, s\<lparr>workers := workers s @ [wd]\<rparr>))"
  by (auto simp: upsert_worker_def mem_find_worker_def bind_call_def return_call_def
      split: option.splits)

lemma upsert_product_mem:
  "upsert_product mem_env pd s =
     (case mem_find_product pd (products s) of
        Some (k, found) \<Rightarrow>
          (Inr Updated, s\<lparr>products := update_at k (product_update_fields pd) (products s)\<rparr>)
      | None \<Rightarrow> (Inr Created, s\<lparr>products := products s @ [pd]\<rparr>))"
  by (auto simp: upsert_product_def mem_find_product_def bind_call_def return_call_def
      split: option.splits)

lemma handle_category_mem:
  "handle_category mem_env cm r pd s =
     (if pc_categorie cm \<noteq> - 1 \<and> truthy (cell_at r (pc_categorie cm)) then
        (case find_from 0 (\<lambda>c. c_nom c = trim (js_String (cell_at r (pc_categorie cm)))) (categories s) of
           Some (cid, found) \<Rightarrow> (Inr (pd\<lparr>p_category_id := Some cid\<rparr>), s)
         | None \<Rightarrow>
             (Inr (pd\<lparr>p_category_id := Some (length (categories s))\<rparr>),
              s\<lparr>categories := categories s
                  @ [\<lparr>c_nom = trim (js_String (cell_at r (pc_categorie cm))),
                      c_description = Importe_via_Excel\<rparr>]\<rparr>))
      else (Inr pd, s))"
  by (auto simp: handle_category_def bind_call_def return_call_def Let_def split: option.splits)

lemma worker_iter_mem_no_error:
  "errors (stats (worker_iter mem_env i r st)) = errors (stats st)"
  by (auto simp: worker_iter_def Let_def upsert_worker_mem count_outcome_def
      split: option.splits prod.splits)

section \<open>The salary cell\<close>

lemma parseFloat_NaN_iff: "parseFloat s = NaN \<longleftrightarrow> \<not> numeric_prefix s"
proof -
  obtain sg u where su: "take_sign (dropWhile is_ws s) = (sg, u)" by (cases "take_sign (dropWhile is_ws s)")
  show ?thesis
  proof (cases "prefix ''Infinity'' u")
    case True
    then show ?thesis using su by (simp add: parseFloat_def numeric_prefix_def)
  next
    case False
    show ?thesis
    proof (cases u)
      case Nil
      then show ?thesis using su False by (simp add: parseFloat_def numeric_prefix_def)
    next
      case (Cons c cs)
      show ?thesis
      proof (cases "is_digit c")
        case True
        then show ?thesis using su False Cons
          by (simp add: parseFloat_def numeric_prefix_def Let_def split: prod.splits)
      next
        case nd: False
        show ?thesis
        proof (cases "c = CHR ''.''")
          case True
          then show ?thesis using su False Cons nd
            by (cases cs) (simp_all add: parseFloat_def numeric_prefix_def Let_def)
        next
          case False
          then show ?thesis using su \<open>\<not> prefix ''Infinity'' u\<close> Cons nd
            by (simp add: parseFloat_def numeric_prefix_def Let_def)
        qed
      qed
    qed
  qed
qed

lemma salary_of_cell_non_numeric:
  "\<not> numeric_prefix (replace_comma (strip_ws (js_String c))) \<Longrightarrow> salary_of_cell c = Num 0"
  using parseFloat_NaN_iff [of "replace_comma (strip_ws (js_String c))"]
  by (simp add: salary_of_cell_def Let_def)

lemma controller_salary_non_numeric:
  "\<not> numeric_prefix (replace_comma (strip_ws (js_String c))) \<Longrightarrow> controller_salary c = Num 0"
  using parseFloat_NaN_iff [of "replace_comma (strip_ws (js_String c))"]
  by (simp add: controller_salary_def Let_def)

lemma salary_example: "salary_of_cell (CStr ''3 500,50'') = Num 3500.50"
  by (simp add: salary_of_cell_def parseFloat_def strip_ws_def is_ws_def is_digit_def digits_val_def pow10_def)

lemma salary_example_controller: "controller_salary (CStr ''3 500,50'') = Num 3500.50"
  by (simp add: controller_salary_def parseFloat_def strip_ws_def is_ws_def is_digit_def digits_val_def pow10_def)

text \<open>
  C6 (as amended). The salary cell \<^verbatim>\<open>"3 500,50"\<close>, white space stripped and the comma
  replaced by a point, parses to 3500.50, in the import service and in the controller.
  For every salary cell whose cleaned text \<open>salaryStr\<close> does not start with a number (see
  \<open>numeric_prefix\<close>) the parsed base salary is 0, also in the record built for the row;
  and no error is recorded on that account: against a store whose calls do not fail, an
  iteration never adds to the error list.
\<close>

theorem salary_coercion:
  "salary_of_cell (CStr ''3 500,50'') = Num 3500.50
   \<and> controller_salary (CStr ''3 500,50'') = Num 3500.50
   \<and> (\<not> numeric_prefix (replace_comma (strip_ws (js_String c)))
        \<longrightarrow> salary_of_cell c = Num 0 \<and> controller_salary c = Num 0
            \<and> (cell_at r (cm_salaire cm) = c
                \<longrightarrow> w_salaire_base (build_workerData parse today cm site r prenom nom) = Num 0))
   \<and> errors (stats (worker_iter mem_env i r' st)) = errors (stats st)"
  using salary_example salary_example_controller
  by (simp add: salary_of_cell_non_numeric controller_salary_non_numeric worker_iter_mem_no_error
      build_workerData_def)

text \<open>The theorem at the salary cell \<^verbatim>\<open>"non communique"\<close>.\<close>

theorem salary_coercion_witness:
  "salary_of_cell (CStr ''non communique'') = Num 0
   \<and> controller_salary (CStr ''non communique'') = Num 0"
proof -
  have h: "\<not> numeric_prefix (replace_comma (strip_ws (js_String (CStr ''non communique''))))"
    by code_simp
  from salary_coercion [where c = "CStr ''non communique''"] h show ?thesis by blast
qed

text \<open>
  The claim as stated speaks of every non-numeric salary cell, and fails at one that
  starts with digits: the cell \<^verbatim>\<open>"1200 FCFA"\<close> is no number, and \<^verbatim>\<open>parseFloat\<close> reads the
  leading 1200 from it.
\<close>

theorem salary_with_unit_is_not_zero:
  "\<not> decimal_number_text ''1200 FCFA''
   \<and> salary_of_cell (CStr ''1200 FCFA'') = Num 1200
   \<and> controller_salary (CStr ''1200 FCFA'') = Num 1200
   \<and> salary_of_cell (CStr ''1200 FCFA'') \<noteq> Num 0"
  by (simp add: decimal_number_text_def trim_def salary_of_cell_def controller_salary_def
      parseFloat_def strip_ws_def is_ws_def is_digit_def digits_val_def pow10_def)

text \<open>On the other side, a number as a whole is never without a numeric start, so the
  amended statement leaves out only texts that are no numbers.\<close>

lemma sample_number_texts:
  "decimal_number_text ''3500.50'' \<and> numeric_prefix ''3500.50''
   \<and> decimal_number_text '' -12e3 '' \<and> \<not> decimal_number_text ''12/05/2020''
   \<and> \<not> decimal_number_text ''abc''"
  by (simp add: decimal_number_text_def numeric_prefix_def trim_def is_ws_def is_digit_def)

section \<open>What an update writes\<close>

text \<open>The worker update keeps name, national ID, status and hire date, and keeps address,
  contact, base salary and birth date when the row has none; the site is always the
  current site.\<close>

lemma worker_update_keeps_absent_fields:
  "w_prenom (worker_update_fields wd found found) = w_prenom found
   \<and> w_nom (worker_update_fields wd found found) = w_nom found
   \<and> w_cin (worker_update_fields wd found found) = w_cin found
   \<and> w_statut (worker_update_fields wd found found) = w_statut found
   \<and> w_date_embauche (worker_update_fields wd found found) = w_date_embauche found
   \<and> (\<not> str_truthy (w_adresse wd) \<longrightarrow> w_adresse (worker_update_fields wd found found) = w_adresse found)
   \<and> (\<not> str_truthy (w_contact wd) \<longrightarrow> w_contact (worker_update_fields wd found found) = w_contact found)
   \<and> (\<not> num_positive (w_salaire_base wd)
        \<longrightarrow> w_salaire_base (worker_update_fields wd found found) = w_salaire_base found)
   \<and> (w_date_naissance wd = None
        \<longrightarrow> w_date_naissance (worker_update_fields wd found found) = w_date_naissance found)"
  by (simp add: worker_update_fields_def)

text \<open>
  C3. An update should write only the fields present in the row and keep the others. The
  product update does not: \<open>savon_grid\<close> has a name column only, its one data row finds
  the stored product by name, and the update overwrites the quantity 40 with 0, the status
  \<^verbatim>\<open>ALERTE\<close> with \<^verbatim>\<open>OK\<close>, and unit, threshold, description and code with the defaults of a
  new product.
\<close>

theorem product_update_resets_fields:
  "importProductsFromExcel mem_env savon_grid savon_store =
     (\<lparr>total = 1, created = 0, updated = 1, errors = []\<rparr>,
      savon_store\<lparr>products :=
        [\<lparr>p_nom = ''Savon'', p_description = None, p_unite = Unite,
          p_seuil_alerte = 5, p_statut = ''OK'', p_quantite_actuelle = 0,
          p_code_produit = None, p_category_id = Some 0\<rparr>]\<rparr>)"
  by code_simp

section \<open>Importing the same sheet twice\<close>

text \<open>
  The iteration of the worker loop, split in the part that reads the row and the call of
  the store: the header index, the column map and the site move on without regard to the
  store; a row that yields no record leaves statistics and store alone, a row that yields
  one is counted with the outcome of the upsert.
\<close>

lemma scan_of_worker_iter: "scan_of (worker_iter env i r st) = worker_scan i r (scan_of st)"
  by (auto simp: scan_of_def worker_scan_def worker_iter_def Let_def split: prod.splits)

lemma worker_iter_not_counted:
  assumes "worker_payload (date_parse env) (clock env i) i r (headerRowIndex st) (colMap st) (currentSite st) = None"
  shows "stats (worker_iter env i r st) = stats st \<and> db (worker_iter env i r st) = db st"
  using assms by (auto simp: worker_payload_def worker_iter_def Let_def split: if_splits)

lemma worker_iter_counted:
  assumes "worker_payload (date_parse env) (clock env i) i r (headerRowIndex st) (colMap st) (currentSite st) = Some wd"
  shows "stats (worker_iter env i r st) =
           count_outcome (worker_error_line i (cell_at r (cm_prenom (colMap st))) (cell_at r (cm_nom (colMap st))))
             (fst (upsert_worker env wd (db st))) ((stats st)\<lparr>total := total (stats st) + 1\<rparr>)
         \<and> db (worker_iter env i r st) = snd (upsert_worker env wd (db st))"
  using assms by (auto simp: worker_payload_def worker_iter_def Let_def split: if_splits prod.splits)

lemma w_cin_update_fields [simp]: "w_cin (worker_update_fields wd found w) = w_cin w"
  by (simp add: worker_update_fields_def)

lemma upsert_worker_mem_cases:
  "(fst (upsert_worker mem_env wd s) = Inr Updated
      \<and> cins (snd (upsert_worker mem_env wd s)) = cins s
      \<and> mem_find_worker wd (workers s) \<noteq> None)
   \<or> (fst (upsert_worker mem_env wd s) = Inr Created
      \<and> cins (snd (upsert_worker mem_env wd s)) = insert (w_cin wd) (cins s)
      \<and> mem_find_worker wd (workers s) = None)"
proof (cases "mem_find_worker wd (workers s)")
  case None
  then show ?thesis by (simp add: upsert_worker_mem cins_def)
next
  case (Some hit)
  obtain k found where "hit = (k, found)" by (cases hit)
  with Some have "map w_cin (workers (snd (upsert_worker mem_env wd s))) = map w_cin (workers s)"
    by (simp add: upsert_worker_mem map_update_at_inv)
  then have "cins (snd (upsert_worker mem_env wd s)) = cins s"
    unfolding cins_def by (metis set_map)
  with Some \<open>hit = (k, found)\<close> show ?thesis by (simp add: upsert_worker_mem)
qed

lemma mem_find_worker_by_cin:
  assumes "str_truthy (w_cin wd)"
  shows "mem_find_worker wd (workers s) \<noteq> None \<longleftrightarrow> w_cin wd \<in> cins s"
proof -
  have "mem_find_worker wd (workers s) = find_from 0 (\<lambda>w. w_cin w = w_cin wd) (workers s)"
    using assms by (simp add: mem_find_worker_def)
  then show ?thesis by (auto simp: find_from_None_iff cins_def intro: rev_image_eqI)
qed

lemma upsert_worker_mem_has_cin:
  assumes "str_truthy (w_cin wd)"
  shows "w_cin wd \<in> cins (snd (upsert_worker mem_env wd s))"
  using upsert_worker_mem_cases [of wd s] mem_find_worker_by_cin [OF assms, of s] by auto

lemma upsert_worker_mem_mono: "cins s \<subseteq> cins (snd (upsert_worker mem_env wd s))"
  using upsert_worker_mem_cases [of wd s] by auto

lemma upsert_worker_mem_known:
  assumes "str_truthy (w_cin wd)" "w_cin wd \<in> cins s"
  shows "fst (upsert_worker mem_env wd s) = Inr Updated"
  using upsert_worker_mem_cases [of wd s] mem_find_worker_by_cin [OF assms(1), of s] assms(2) by auto

lemma upsert_worker_blind:
  "upsert_worker blind_env wd s = (Inr Created, s\<lparr>workers := workers s @ [wd]\<rparr>)"
  by (simp add: upsert_worker_def bind_call_def return_call_def)

lemma pay_eq:
  "worker_payload date_only_parse (DateMs 0) i r (headerRowIndex st) (colMap st) (currentSite st)
   = pay i r (scan_of st)"
  by (simp add: pay_def scan_of_def)

lemma blind_iter_workers:
  "workers (db (worker_iter blind_env i r pt)) =
     workers (db pt) @ (case pay i r (scan_of pt) of Some wd \<Rightarrow> [wd] | None \<Rightarrow> [])"
proof (cases "pay i r (scan_of pt)")
  case None
  then show ?thesis using worker_iter_not_counted [of blind_env i r pt] by (simp add: pay_eq)
next
  case (Some wd)
  then show ?thesis using worker_iter_counted [of blind_env i r pt wd]
    by (simp add: pay_eq upsert_worker_blind)
qed

lemma blind_loop_mono:
  "set (workers (db pt)) \<subseteq> set (workers (db (worker_loop blind_env i rows pt)))"
proof (induction rows arbitrary: i pt)
  case Nil
  then show ?case by simp
next
  case (Cons r rows)
  have "set (workers (db pt)) \<subseteq> set (workers (db (worker_iter blind_env i r pt)))"
    by (simp add: blind_iter_workers)
  also have "\<dots> \<subseteq> set (workers (db (worker_loop blind_env (i + 1) rows (worker_iter blind_env i r pt))))"
    by (rule Cons.IH)
  finally show ?case by simp
qed

lemma mem_iter_mono: "cins (db st) \<subseteq> cins (db (worker_iter mem_env i r st))"
proof (cases "pay i r (scan_of st)")
  case None
  then show ?thesis using worker_iter_not_counted [of mem_env i r st] by (simp add: pay_eq)
next
  case (Some wd)
  then show ?thesis using worker_iter_counted [of mem_env i r st wd] upsert_worker_mem_mono [of "db st" wd]
    by (simp add: pay_eq)
qed

lemma mem_loop_mono: "cins (db st) \<subseteq> cins (db (worker_loop mem_env i rows st))"
proof (induction rows arbitrary: i st)
  case Nil
  then show ?case by simp
next
  case (Cons r rows)
  have "cins (db st) \<subseteq> cins (db (worker_iter mem_env i r st))" by (rule mem_iter_mono)
  also have "\<dots> \<subseteq> cins (db (worker_loop mem_env (i + 1) rows (worker_iter mem_env i r st)))"
    by (rule Cons.IH)
  finally show ?case by simp
qed

lemma worker_first_run:
  assumes "scan_of st = scan_of pt"
    and "\<forall>w \<in> set (workers (db (worker_loop blind_env i rows pt))). str_truthy (w_cin w)"
  shows "w_cin ` set (workers (db (worker_loop blind_env i rows pt)))
         \<subseteq> w_cin ` set (workers (db pt)) \<union> cins (db (worker_loop mem_env i rows st))"
  using assms
proof (induction rows arbitrary: i st pt)
  case Nil
  then show ?case by simp
next
  case (Cons r rows)
  let ?st' = "worker_iter mem_env i r st" and ?pt' = "worker_iter blind_env i r pt"
  let ?fin = "worker_loop mem_env (i + 1) rows ?st'"
  have sc: "scan_of ?st' = scan_of ?pt'"
    using Cons.prems(1) by (simp add: scan_of_worker_iter)
  have all: "\<forall>w \<in> set (workers (db (worker_loop blind_env (i + 1) rows ?pt'))). str_truthy (w_cin w)"
    using Cons.prems(2) by simp
  note IH = Cons.IH [OF sc all]
  have step: "w_cin ` set (workers (db ?pt')) \<subseteq> w_cin ` set (workers (db pt)) \<union> cins (db ?fin)"
  proof (cases "pay i r (scan_of pt)")
    case None
    then show ?thesis by (auto simp: blind_iter_workers)
  next
    case (Some wd)
    then have "wd \<in> set (workers (db ?pt'))" by (simp add: blind_iter_workers)
    then have "wd \<in> set (workers (db (worker_loop blind_env (i + 1) rows ?pt')))"
      using blind_loop_mono by blast
    then have tr: "str_truthy (w_cin wd)" using all by blast
    have "pay i r (scan_of st) = Some wd" using Some Cons.prems(1) by simp
    then have "db ?st' = snd (upsert_worker mem_env wd (db st))"
      using worker_iter_counted [of mem_env i r st wd] by (simp add: pay_eq)
    then have "w_cin wd \<in> cins (db ?st')"
      using upsert_worker_mem_has_cin [OF tr, of "db st"] by simp
    then have "w_cin wd \<in> cins (db ?fin)" using mem_loop_mono by blast
    then show ?thesis using Some by (auto simp: blind_iter_workers)
  qed
  from IH step show ?case by auto
qed

lemma worker_second_run:
  assumes "scan_of st = scan_of pt"
    and "\<forall>w \<in> set (workers (db (worker_loop blind_env i rows pt))). str_truthy (w_cin w)"
    and "w_cin ` set (workers (db (worker_loop blind_env i rows pt))) \<subseteq> cins (db st)"
  shows "created (stats (worker_loop mem_env i rows st)) = created (stats st)
         \<and> updated (stats (worker_loop mem_env i rows st)) + total (stats st)
             = total (stats (worker_loop mem_env i rows st)) + updated (stats st)"
  using assms
proof (induction rows arbitrary: i st pt)
  case Nil
  then show ?case by simp
next
  case (Cons r rows)
  let ?st' = "worker_iter mem_env i r st" and ?pt' = "worker_iter blind_env i r pt"
  have sc: "scan_of ?st' = scan_of ?pt'"
    using Cons.prems(1) by (simp add: scan_of_worker_iter)
  have all: "\<forall>w \<in> set (workers (db (worker_loop blind_env (i + 1) rows ?pt'))). str_truthy (w_cin w)"
    using Cons.prems(2) by simp
  have sub: "w_cin ` set (workers (db (worker_loop blind_env (i + 1) rows ?pt'))) \<subseteq> cins (db ?st')"
    using Cons.prems(3) mem_iter_mono [of st i r] by auto
  note IH = Cons.IH [OF sc all sub]
  have step: "created (stats ?st') = created (stats st)
      \<and> updated (stats ?st') + total (stats st) = total (stats ?st') + updated (stats st)"
  proof (cases "pay i r (scan_of st)")
    case None
    then show ?thesis using worker_iter_not_counted [of mem_env i r st] by (simp add: pay_eq)
  next
    case (Some wd)
    then have "pay i r (scan_of pt) = Some wd" using Cons.prems(1) by simp
    then have "wd \<in> set (workers (db ?pt'))" by (simp add: blind_iter_workers)
    then have mem: "wd \<in> set (workers (db (worker_loop blind_env (i + 1) rows ?pt')))"
      using blind_loop_mono by blast
    then have tr: "str_truthy (w_cin wd)" using all by blast
    from mem Cons.prems(3) have "w_cin wd \<in> cins (db st)" by auto
    then have "fst (upsert_worker mem_env wd (db st)) = Inr Updated"
      using upsert_worker_mem_known [OF tr] by simp
    then show ?thesis using worker_iter_counted [of mem_env i r st wd] Some
      by (simp add: pay_eq count_outcome_def)
  qed
  from IH step show ?case by simp
qed

text \<open>The worker import, run twice against the in-memory store.\<close>

lemma worker_reimport:
  assumes "list_all (\<lambda>w. str_truthy (w_cin w)) (worker_data_rows data)"
  shows "created (fst (importWorkersFromExcel mem_env data (snd (importWorkersFromExcel mem_env data s)))) = 0
    \<and> updated (fst (importWorkersFromExcel mem_env data (snd (importWorkersFromExcel mem_env data s))))
      = total (fst (importWorkersFromExcel mem_env data (snd (importWorkersFromExcel mem_env data s))))"
proof -
  let ?pt = "worker_init empty_store"
  let ?s1 = "db (worker_loop mem_env 0 data (worker_init s))"
  have all: "\<forall>w \<in> set (workers (db (worker_loop blind_env 0 data ?pt))). str_truthy (w_cin w)"
    using assms by (simp add: worker_data_rows_def importWorkersFromExcel_def list_all_iff Let_def)
  have sc: "scan_of (worker_init x) = scan_of ?pt" for x :: memstore
    by (simp add: scan_of_def worker_init_def)
  have "w_cin ` set (workers (db (worker_loop blind_env 0 data ?pt)))
        \<subseteq> w_cin ` set (workers (db ?pt)) \<union> cins ?s1"
    by (rule worker_first_run [OF sc all])
  then have sub: "w_cin ` set (workers (db (worker_loop blind_env 0 data ?pt))) \<subseteq> cins (db (worker_init ?s1))"
    by (simp add: worker_init_def empty_store_def)
  from worker_second_run [OF sc all sub]
  show ?thesis
    by (simp add: importWorkersFromExcel_def worker_init_def stats0_def Let_def)
qed

text \<open>The same for the product loop.\<close>

lemma pscan_of_product_iter: "pscan_of (product_iter env i r st) = product_scan i r (pscan_of st)"
  by (auto simp: pscan_of_def product_scan_def product_iter_def Let_def split: prod.splits)

lemma product_iter_not_counted:
  assumes "product_payload i r (pscan_of st) = None"
  shows "stats (product_iter env i r st) = stats st \<and> db (product_iter env i r st) = db st"
  using assms
  by (auto simp: product_payload_def pscan_of_def product_iter_def Let_def split: if_splits)

lemma product_iter_counted:
  assumes "product_payload i r (pscan_of st) = Some pd"
  shows "stats (product_iter env i r st) =
           count_outcome (product_error_line i (cell_at r (pc_nom (colMap st))))
             (fst (bind_call (handle_category env (colMap st) r pd) (upsert_product env) (db st)))
             ((stats st)\<lparr>total := total (stats st) + 1\<rparr>)
         \<and> db (product_iter env i r st) =
             snd (bind_call (handle_category env (colMap st) r pd) (upsert_product env) (db st))"
  using assms
  by (auto simp: product_payload_def pscan_of_def product_iter_def Let_def
      split: if_splits prod.splits)

lemma handle_category_blind:
  "handle_category blind_env cm r pd s = handle_category mem_env cm r pd s"
  by (auto simp: handle_category_def Let_def bind_call_def return_call_def split: option.splits)

lemma handle_category_mem_result:
  "\<exists>pd' s'. handle_category mem_env cm r pd s = (Inr pd', s') \<and> products s' = products s
      \<and> pkey pd' = pkey pd"
  by (auto simp: handle_category_mem pkey_def split: option.splits)

lemma upsert_product_blind:
  "upsert_product blind_env pd s = (Inr Created, s\<lparr>products := products s @ [pd]\<rparr>)"
  by (simp add: upsert_product_def bind_call_def return_call_def)

lemma pkey_update_fields [simp]: "pkey (product_update_fields pd p) = pkey pd"
  by (simp add: pkey_def product_update_fields_def)

lemma mem_find_product_Some:
  assumes "mem_find_product pd ps = Some (k, found)"
  shows "k < length ps \<and> ps ! k = found
         \<and> (p_code_produit found = p_code_produit pd
            \<or> (p_nom found = p_nom pd
               \<and> (str_truthy (p_code_produit pd)
                    \<longrightarrow> (\<forall>p \<in> set ps. p_code_produit p \<noteq> p_code_produit pd))))"
  using assms
  by (auto simp: mem_find_product_def find_from_None_iff split: option.splits if_splits
      dest: find_from_0_Some)

lemma upsert_product_mem_keeps:
  assumes "has_code K s c" "pkey pd \<in> K" "name_fixes_code K" "str_truthy (p_code_produit pd)"
  shows "has_code K (snd (upsert_product mem_env pd s)) c"
proof (cases "mem_find_product pd (products s)")
  case None
  then show ?thesis using assms(1) by (auto simp: upsert_product_mem has_code_def)
next
  case (Some hit)
  obtain j found where hit: "hit = (j, found)" by (cases hit)
  from Some hit have f: "j < length (products s)" "products s ! j = found"
    "p_code_produit found = p_code_produit pd
       \<or> (p_nom found = p_nom pd \<and> (\<forall>p \<in> set (products s). p_code_produit p \<noteq> p_code_produit pd))"
    using mem_find_product_Some [of pd "products s" j found] assms(4) by simp_all
  let ?ps' = "(products s)[j := product_update_fields pd found]"
  have s': "products (snd (upsert_product mem_env pd s)) = ?ps'"
    using Some hit f by (simp add: upsert_product_mem update_at_def)
  from assms(1) obtain p where p: "p \<in> set (products s)" "p_code_produit p = c" "pkey p \<in> K"
    by (auto simp: has_code_def)
  then obtain n where n: "n < length (products s)" "products s ! n = p"
    by (auto simp: in_set_conv_nth)
  show ?thesis
  proof (cases "n = j")
    case True
    with n f have pf: "p = found" by simp
    have "p_code_produit found = p_code_produit pd"
    proof (rule ccontr)
      assume ne: "p_code_produit found \<noteq> p_code_produit pd"
      with f(3) have nm: "p_nom found = p_nom pd" by blast
      from p(3) pf assms(2,3) nm have "p_code_produit found = p_code_produit pd"
        unfolding name_fixes_code_def pkey_def by force
      with ne show False by simp
    qed
    with pf p(2) have "p_code_produit pd = c" by simp
    moreover have "?ps' ! j \<in> set ?ps'" using f(1) by (simp add: set_update_memI)
    moreover have "pkey (?ps' ! j) = pkey pd" using f(1) by simp
    ultimately show ?thesis unfolding has_code_def s' using assms(2)
      by (metis fst_conv pkey_def)
  next
    case False
    then have "?ps' ! n = p" using n by simp
    moreover have "?ps' ! n \<in> set ?ps'" using n by (simp add: nth_mem)
    ultimately show ?thesis unfolding has_code_def s' using p(2,3) by metis
  qed
qed

lemma upsert_product_mem_adds:
  assumes "pkey pd \<in> K"
  shows "has_code K (snd (upsert_product mem_env pd s)) (p_code_produit pd)"
proof (cases "mem_find_product pd (products s)")
  case None
  then show ?thesis using assms by (auto simp: upsert_product_mem has_code_def)
next
  case (Some hit)
  obtain j found where hit: "hit = (j, found)" by (cases hit)
  from Some hit have f: "j < length (products s)" "products s ! j = found"
    using mem_find_product_Some [of pd "products s" j found] by simp_all
  let ?ps' = "(products s)[j := product_update_fields pd found]"
  have s': "products (snd (upsert_product mem_env pd s)) = ?ps'"
    using Some hit f by (simp add: upsert_product_mem update_at_def)
  have "?ps' ! j \<in> set ?ps'" using f(1) by (simp add: set_update_memI)
  moreover have "pkey (?ps' ! j) = pkey pd" using f(1) by simp
  ultimately show ?thesis unfolding has_code_def s' using assms
    by (metis fst_conv pkey_def)
qed

lemma upsert_product_mem_known:
  assumes "str_truthy (p_code_produit pd)" "has_code K s (p_code_produit pd)"
  shows "fst (upsert_product mem_env pd s) = Inr Updated"
proof -
  from assms(2) have "find_from 0 (\<lambda>p. p_code_produit p = p_code_produit pd) (products s) \<noteq> None"
    by (auto simp: find_from_None_iff has_code_def)
  then have "mem_find_product pd (products s) \<noteq> None"
    using assms(1) by (auto simp: mem_find_product_def split: option.splits)
  then show ?thesis by (auto simp: upsert_product_mem split: option.splits)
qed

lemma mem_product_step:
  "\<exists>pd' s'. bind_call (handle_category mem_env cm r pd) (upsert_product mem_env) s
              = upsert_product mem_env pd' s'
      \<and> products s' = products s \<and> pkey pd' = pkey pd"
proof -
  from handle_category_mem_result [of cm r pd s] obtain pd' s' where
    h: "handle_category mem_env cm r pd s = (Inr pd', s')" "products s' = products s"
       "pkey pd' = pkey pd" by blast
  have "bind_call (handle_category mem_env cm r pd) (upsert_product mem_env) s
        = upsert_product mem_env pd' s'"
    using h(1) by (simp add: bind_call_def)
  with h(2,3) show ?thesis by blast
qed

lemma blind_product_step:
  "\<exists>pd'. products (snd (bind_call (handle_category blind_env cm r pd) (upsert_product blind_env) s))
            = products s @ [pd'] \<and> pkey pd' = pkey pd"
proof -
  from handle_category_mem_result [of cm r pd s] obtain pd' s' where
    h: "handle_category mem_env cm r pd s = (Inr pd', s')" "products s' = products s"
       "pkey pd' = pkey pd" by blast
  have "products (snd (bind_call (handle_category blind_env cm r pd) (upsert_product blind_env) s))
        = products s @ [pd']"
    using h(1,2) by (simp add: bind_call_def handle_category_blind upsert_product_blind)
  with h(3) show ?thesis by blast
qed

lemma has_code_cong: "products s' = products s \<Longrightarrow> has_code K s' c = has_code K s c"
  by (simp add: has_code_def)

lemma pkey_code: "pkey pd' = pkey pd \<Longrightarrow> p_code_produit pd' = p_code_produit pd"
  by (simp add: pkey_def)

lemma mem_step_keeps:
  assumes "has_code K s c" "pkey pd \<in> K" "name_fixes_code K" "str_truthy (p_code_produit pd)"
  shows "has_code K (snd (bind_call (handle_category mem_env cm r pd) (upsert_product mem_env) s)) c"
proof -
  from mem_product_step [of cm r pd s] obtain pd' s' where
    e: "bind_call (handle_category mem_env cm r pd) (upsert_product mem_env) s = upsert_product mem_env pd' s'"
    and p: "products s' = products s" and k: "pkey pd' = pkey pd" by blast
  from assms(1) have a: "has_code K s' c" by (simp only: has_code_cong [OF p])
  from assms(2) have b: "pkey pd' \<in> K" by (simp only: k)
  from assms(4) have d: "str_truthy (p_code_produit pd')" by (simp only: pkey_code [OF k])
  from upsert_product_mem_keeps [OF a b assms(3) d] show ?thesis by (simp only: e)
qed

lemma mem_step_adds:
  assumes "pkey pd \<in> K"
  shows "has_code K (snd (bind_call (handle_category mem_env cm r pd) (upsert_product mem_env) s))
           (p_code_produit pd)"
proof -
  from mem_product_step [of cm r pd s] obtain pd' s' where
    e: "bind_call (handle_category mem_env cm r pd) (upsert_product mem_env) s = upsert_product mem_env pd' s'"
    and k: "pkey pd' = pkey pd" by blast
  from assms have b: "pkey pd' \<in> K" by (simp only: k)
  have "has_code K (snd (upsert_product mem_env pd' s')) (p_code_produit pd)"
    using upsert_product_mem_adds [OF b, of s'] by (simp only: pkey_code [OF k])
  then show ?thesis by (simp only: e)
qed

lemma mem_step_known:
  assumes "str_truthy (p_code_produit pd)" "has_code K s (p_code_produit pd)"
  shows "fst (bind_call (handle_category mem_env cm r pd) (upsert_product mem_env) s) = Inr Updated"
proof -
  from mem_product_step [of cm r pd s] obtain pd' s' where
    e: "bind_call (handle_category mem_env cm r pd) (upsert_product mem_env) s = upsert_product mem_env pd' s'"
    and p: "products s' = products s" and k: "pkey pd' = pkey pd" by blast
  from assms(1) have a: "str_truthy (p_code_produit pd')" by (simp only: pkey_code [OF k])
  from assms(2) have b: "has_code K s' (p_code_produit pd')"
    by (simp only: has_code_cong [OF p] pkey_code [OF k])
  from upsert_product_mem_known [OF a b] show ?thesis by (simp only: e)
qed

lemma blind_product_iter_keys:
  "pkeys (db (product_iter blind_env i r pt)) =
     pkeys (db pt) \<union> (case product_payload i r (pscan_of pt) of Some pd \<Rightarrow> {pkey pd} | None \<Rightarrow> {})"
proof (cases "product_payload i r (pscan_of pt)")
  case None
  then show ?thesis using product_iter_not_counted [of i r pt blind_env] by (simp add: pkeys_def)
next
  case (Some pd)
  from blind_product_step [of "colMap pt" r pd "db pt"] obtain pd' where
    b: "products (snd (bind_call (handle_category blind_env (colMap pt) r pd) (upsert_product blind_env) (db pt)))
            = products (db pt) @ [pd']" and k: "pkey pd' = pkey pd" by blast
  have d: "db (product_iter blind_env i r pt) =
      snd (bind_call (handle_category blind_env (colMap pt) r pd) (upsert_product blind_env) (db pt))"
    using product_iter_counted [OF Some, of blind_env] by blast
  have "products (db (product_iter blind_env i r pt)) = products (db pt) @ [pd']"
    by (simp only: d b)
  then show ?thesis using Some k by (simp add: pkeys_def)
qed

lemma blind_product_loop_mono: "pkeys (db pt) \<subseteq> pkeys (db (product_loop blind_env i rows pt))"
proof (induction rows arbitrary: i pt)
  case Nil
  then show ?case by simp
next
  case (Cons r rows)
  have "pkeys (db pt) \<subseteq> pkeys (db (product_iter blind_env i r pt))"
    by (simp add: blind_product_iter_keys)
  also have "\<dots> \<subseteq> pkeys (db (product_loop blind_env (i + 1) rows (product_iter blind_env i r pt)))"
    by (rule Cons.IH)
  finally show ?case by simp
qed

text \<open>One iteration on the in-memory store keeps every code that is present, and adds the
  code of the row it counts.\<close>

lemma product_mem_iter_keeps:
  assumes inv: "\<forall>c \<in> C. has_code K (db st) c"
    and nfc: "name_fixes_code K"
    and tr: "\<forall>k \<in> K. str_truthy (fst k)"
    and pay: "case product_payload i r (pscan_of st) of Some pd \<Rightarrow> pkey pd \<in> K | None \<Rightarrow> True"
  shows "\<forall>c \<in> C \<union> (case product_payload i r (pscan_of st) of
                         Some pd \<Rightarrow> {p_code_produit pd} | None \<Rightarrow> {}).
           has_code K (db (product_iter mem_env i r st)) c"
proof (cases "product_payload i r (pscan_of st)")
  case None
  then show ?thesis using inv product_iter_not_counted [of i r st mem_env] by simp
next
  case (Some pd)
  then have k: "pkey pd \<in> K" using pay by simp
  then have t: "str_truthy (p_code_produit pd)" using tr by (auto simp: pkey_def)
  have d: "db (product_iter mem_env i r st) =
      snd (bind_call (handle_category mem_env (colMap st) r pd) (upsert_product mem_env) (db st))"
    using product_iter_counted [OF Some, of mem_env] by simp
  show ?thesis
  proof
    fix c assume "c \<in> C \<union> (case product_payload i r (pscan_of st) of
                         Some pd \<Rightarrow> {p_code_produit pd} | None \<Rightarrow> {})"
    then consider "c \<in> C" | "c = p_code_produit pd" using Some by auto
    then show "has_code K (db (product_iter mem_env i r st)) c"
    proof cases
      case 1
      with inv have "has_code K (db st) c" by blast
      from mem_step_keeps [OF this k nfc t] show ?thesis by (simp add: d)
    next
      case 2
      from mem_step_adds [OF k, of "colMap st" r "db st"] show ?thesis by (simp add: d 2)
    qed
  qed
qed

lemma product_first_run:
  assumes "pscan_of st = pscan_of pt"
    and "K = pkeys (db (product_loop blind_env i rows pt))"
    and "name_fixes_code K" "\<forall>k \<in> K. str_truthy (fst k)"
    and "\<forall>k \<in> pkeys (db pt). has_code K (db st) (fst k)"
  shows "\<forall>k \<in> K. has_code K (db (product_loop mem_env i rows st)) (fst k)"
  using assms
proof (induction rows arbitrary: i st pt)
  case Nil
  then show ?case by simp
next
  case (Cons r rows)
  let ?st' = "product_iter mem_env i r st" and ?pt' = "product_iter blind_env i r pt"
  have sc: "pscan_of ?st' = pscan_of ?pt'"
    using Cons.prems(1) by (simp add: pscan_of_product_iter)
  have K: "K = pkeys (db (product_loop blind_env (i + 1) rows ?pt'))"
    using Cons.prems(2) by simp
  have sub: "pkeys (db ?pt') \<subseteq> K" unfolding K by (rule blind_product_loop_mono)
  have same: "product_payload i r (pscan_of st) = product_payload i r (pscan_of pt)"
    using Cons.prems(1) by simp
  have keys: "pkeys (db ?pt') = pkeys (db pt)
      \<union> (case product_payload i r (pscan_of st) of Some pd \<Rightarrow> {pkey pd} | None \<Rightarrow> {})"
    by (simp add: blind_product_iter_keys same)
  have pay: "case product_payload i r (pscan_of st) of Some pd \<Rightarrow> pkey pd \<in> K | None \<Rightarrow> True"
    using keys sub by (auto split: option.splits)
  have inv0: "\<forall>c \<in> fst ` pkeys (db pt). has_code K (db st) c"
    using Cons.prems(5) by auto
  note step = product_mem_iter_keeps [OF inv0 Cons.prems(3,4) pay]
  have inv: "\<forall>k \<in> pkeys (db ?pt'). has_code K (db ?st') (fst k)"
  proof
    fix k assume "k \<in> pkeys (db ?pt')"
    with keys have "fst k \<in> fst ` pkeys (db pt)
        \<union> (case product_payload i r (pscan_of st) of Some pd \<Rightarrow> {p_code_produit pd} | None \<Rightarrow> {})"
      by (auto simp: pkey_def split: option.splits)
    with step show "has_code K (db ?st') (fst k)" by blast
  qed
  from Cons.IH [OF sc K Cons.prems(3,4) inv] show ?case by simp
qed

lemma product_second_run:
  assumes "pscan_of st = pscan_of pt"
    and "K = pkeys (db (product_loop blind_env i rows pt))"
    and "name_fixes_code K" "\<forall>k \<in> K. str_truthy (fst k)"
    and "\<forall>c \<in> fst ` K. has_code K (db st) c"
  shows "created (stats (product_loop mem_env i rows st)) = created (stats st)
         \<and> updated (stats (product_loop mem_env i rows st)) + total (stats st)
             = total (stats (product_loop mem_env i rows st)) + updated (stats st)"
  using assms
proof (induction rows arbitrary: i st pt)
  case Nil
  then show ?case by simp
next
  case (Cons r rows)
  let ?st' = "product_iter mem_env i r st" and ?pt' = "product_iter blind_env i r pt"
  have sc: "pscan_of ?st' = pscan_of ?pt'"
    using Cons.prems(1) by (simp add: pscan_of_product_iter)
  have K: "K = pkeys (db (product_loop blind_env (i + 1) rows ?pt'))"
    using Cons.prems(2) by simp
  have sub: "pkeys (db ?pt') \<subseteq> K" unfolding K by (rule blind_product_loop_mono)
  have same: "product_payload i r (pscan_of st) = product_payload i r (pscan_of pt)"
    using Cons.prems(1) by simp
  have keys: "pkeys (db ?pt') = pkeys (db pt)
      \<union> (case product_payload i r (pscan_of st) of Some pd \<Rightarrow> {pkey pd} | None \<Rightarrow> {})"
    by (simp add: blind_product_iter_keys same)
  have pay: "case product_payload i r (pscan_of st) of Some pd \<Rightarrow> pkey pd \<in> K | None \<Rightarrow> True"
    using keys sub by (auto split: option.splits)
  note step = product_mem_iter_keeps [OF Cons.prems(5) Cons.prems(3,4) pay]
  then have inv: "\<forall>c \<in> fst ` K. has_code K (db ?st') c" by blast
  note IH = Cons.IH [OF sc K Cons.prems(3,4) inv]
  have stp: "created (stats ?st') = created (stats st)
      \<and> updated (stats ?st') + total (stats st) = total (stats ?st') + updated (stats st)"
  proof (cases "product_payload i r (pscan_of st)")
    case None
    then show ?thesis using product_iter_not_counted [of i r st mem_env] by simp
  next
    case (Some pd)
    with pay have k: "pkey pd \<in> K" by simp
    with Cons.prems(4) have a: "str_truthy (p_code_produit pd)" by (auto simp: pkey_def)
    from k have "p_code_produit pd \<in> fst ` K" by (force simp: pkey_def)
    with Cons.prems(5) have b: "has_code K (db st) (p_code_produit pd)" by blast
    have "fst (bind_call (handle_category mem_env (colMap st) r pd) (upsert_product mem_env) (db st))
          = Inr Updated"
      by (rule mem_step_known [OF a b])
    then show ?thesis using product_iter_counted [OF Some, of mem_env]
      by (simp add: count_outcome_def)
  qed
  from IH stp show ?case by simp
qed

text \<open>The product import, run twice against the in-memory store.\<close>

lemma product_reimport:
  assumes "list_all (\<lambda>p. str_truthy (p_code_produit p)) (product_data_rows data)"
    and "list_all (\<lambda>p. list_all (\<lambda>q. if p_nom p = p_nom q then p_code_produit p = p_code_produit q else True)
                          (product_data_rows data)) (product_data_rows data)"
  shows "created (fst (importProductsFromExcel mem_env data (snd (importProductsFromExcel mem_env data s)))) = 0
    \<and> updated (fst (importProductsFromExcel mem_env data (snd (importProductsFromExcel mem_env data s))))
      = total (fst (importProductsFromExcel mem_env data (snd (importProductsFromExcel mem_env data s))))"
proof -
  let ?pt = "product_init empty_store"
  define K where "K = pkeys (db (product_loop blind_env 0 data ?pt))"
  let ?s1 = "db (product_loop mem_env 0 data (product_init s))"
  have rows: "product_data_rows data = products (db (product_loop blind_env 0 data ?pt))"
    by (simp add: product_data_rows_def importProductsFromExcel_def Let_def)
  have tr: "\<forall>k \<in> pkey ` set (product_data_rows data). str_truthy (fst k)"
    using assms(1) unfolding list_all_iff by (simp add: pkey_def)
  have K_rows: "K = pkey ` set (product_data_rows data)"
    by (simp only: K_def rows pkeys_def)
  note tr = tr [folded K_rows]
  have nfc: "name_fixes_code K"
    unfolding name_fixes_code_def
  proof (intro ballI impI)
    fix k k' assume "k \<in> K" "k' \<in> K" and same: "snd k = snd k'"
    then obtain p q where pq: "p \<in> set (product_data_rows data)" "q \<in> set (product_data_rows data)"
      and kk: "k = pkey p" "k' = pkey q" unfolding K_rows by blast
    from assms(2) pq have "if p_nom p = p_nom q then p_code_produit p = p_code_produit q else True"
      unfolding list_all_iff by blast
    with same kk show "fst k = fst k'" by (simp add: pkey_def)
  qed
  have sc: "pscan_of (product_init x) = pscan_of ?pt" for x :: memstore
    by (simp add: pscan_of_def product_init_def)
  have inv0: "\<forall>k \<in> pkeys (db ?pt). has_code K (db (product_init s)) (fst k)"
    by (simp add: product_init_def empty_store_def pkeys_def)
  have "\<forall>k \<in> K. has_code K ?s1 (fst k)"
    by (rule product_first_run [OF sc K_def nfc tr inv0])
  then have inv: "\<forall>c \<in> fst ` K. has_code K (db (product_init ?s1)) c"
    by (auto simp: product_init_def)
  from product_second_run [OF sc K_def nfc tr inv]
  show ?thesis
    by (simp add: importProductsFromExcel_def product_init_def stats0_def Let_def)
qed

text \<open>
  C2 (as amended). Against a store whose calls do not fail (the in-memory store, in any
  initial state \<open>s\<close>): if every data row of the grid carries a national ID, the second
  run of the worker import on the store left by the first run has \<open>created = 0\<close> and
  \<open>updated = total\<close>. For the product import the same holds if every data row carries a
  product code and, in addition, data rows with the same product name carry the same
  code.
\<close>

theorem reimport_idempotent:
  "(list_all (\<lambda>w. str_truthy (w_cin w)) (worker_data_rows data) \<longrightarrow>
      created (fst (importWorkersFromExcel mem_env data
                      (snd (importWorkersFromExcel mem_env data s)))) = 0
      \<and> updated (fst (importWorkersFromExcel mem_env data
                        (snd (importWorkersFromExcel mem_env data s))))
        = total (fst (importWorkersFromExcel mem_env data
                        (snd (importWorkersFromExcel mem_env data s)))))
   \<and> (list_all (\<lambda>p. str_truthy (p_code_produit p)) (product_data_rows pdata)
      \<and> list_all (\<lambda>p. list_all (\<lambda>q. if p_nom p = p_nom q
                                       then p_code_produit p = p_code_produit q else True)
                            (product_data_rows pdata)) (product_data_rows pdata) \<longrightarrow>
      created (fst (importProductsFromExcel mem_env pdata
                      (snd (importProductsFromExcel mem_env pdata s)))) = 0
      \<and> updated (fst (importProductsFromExcel mem_env pdata
                        (snd (importProductsFromExcel mem_env pdata s))))
        = total (fst (importProductsFromExcel mem_env pdata
                        (snd (importProductsFromExcel mem_env pdata s)))))"
  using worker_reimport [of data s] product_reimport [of pdata s] by blast

text \<open>The theorem at \<open>staff_grid\<close> and \<open>catalogue_grid\<close>, imported twice into the empty
  store.\<close>

theorem reimport_idempotent_witness:
  "created (fst (importWorkersFromExcel mem_env staff_grid
                   (snd (importWorkersFromExcel mem_env staff_grid empty_store)))) = 0
   \<and> updated (fst (importWorkersFromExcel mem_env staff_grid
                     (snd (importWorkersFromExcel mem_env staff_grid empty_store))))
     = total (fst (importWorkersFromExcel mem_env staff_grid
                     (snd (importWorkersFromExcel mem_env staff_grid empty_store))))
   \<and> created (fst (importProductsFromExcel mem_env catalogue_grid
                     (snd (importProductsFromExcel mem_env catalogue_grid empty_store)))) = 0
   \<and> updated (fst (importProductsFromExcel mem_env catalogue_grid
                     (snd (importProductsFromExcel mem_env catalogue_grid empty_store))))
     = total (fst (importProductsFromExcel mem_env catalogue_grid
                     (snd (importProductsFromExcel mem_env catalogue_grid empty_store))))"
proof -
  have h1: "list_all (\<lambda>w. str_truthy (w_cin w)) (worker_data_rows staff_grid)" by code_simp
  have h2: "list_all (\<lambda>p. str_truthy (p_code_produit p)) (product_data_rows catalogue_grid)"
    by code_simp
  have h3: "list_all (\<lambda>p. list_all (\<lambda>q. if p_nom p = p_nom q
                                       then p_code_produit p = p_code_produit q else True)
                            (product_data_rows catalogue_grid)) (product_data_rows catalogue_grid)"
    by code_simp
  from reimport_idempotent [where data = staff_grid and pdata = catalogue_grid and s = empty_store]
    h1 h2 h3
  show ?thesis by blast
qed

text \<open>The two sample sheets have data rows: two workers, two products.\<close>

lemma sample_sheets_have_data_rows:
  "length (worker_data_rows staff_grid) = 2 \<and> length (product_data_rows catalogue_grid) = 2"
  by code_simp

text \<open>
  The claim as stated asks for product codes only, and fails: every data row of
  \<open>shared_keys_grid\<close> carries a code, yet the second run creates a product. The first
  run leaves one product, with code B and name Y; the second run finds neither the code A
  nor the name X of the first row.
\<close>

theorem product_reimport_creates:
  "list_all (\<lambda>p. str_truthy (p_code_produit p)) (product_data_rows shared_keys_grid)
   \<and> fst (importProductsFromExcel mem_env shared_keys_grid
            (snd (importProductsFromExcel mem_env shared_keys_grid empty_store)))
     = \<lparr>total = 3, created = 1, updated = 2, errors = []\<rparr>"
  by code_simp

section \<open>The category of a product row\<close>





text \<open>Both cases in one run: the first data row of \<open>catalogue_grid\<close> creates the
  category, the second one reuses it.\<close>

lemma catalogue_import:
  "categories (snd (importProductsFromExcel mem_env catalogue_grid empty_store))
     = [\<lparr>c_nom = ''Hygiene'', c_description = Importe_via_Excel\<rparr>]
   \<and> map p_category_id (products (snd (importProductsFromExcel mem_env catalogue_grid empty_store)))
     = [Some 0, Some 0]
   \<and> fst (importProductsFromExcel mem_env catalogue_grid empty_store)
     = \<lparr>total = 2, created = 2, updated = 0, errors = []\<rparr>"
  by code_simp

lemma product_header_state:
  "product_loop mem_env 0 [product_header] (product_init empty_store) = after_product_header"
  by code_simp


end
